theory Spec2Isabelle
  imports Complex_Main
begin

section \<open>Numbers, errors and arrays\<close>

text \<open>
  The exceptions raised by the code under study. The constructor and the transform raise
  \<open>ValueError\<close> and \<open>NotImplementedError\<close>; \<open>partial_fit\<close>, \<open>_estimate\<close> and
  \<open>dimension\<close> raise \<open>RuntimeError\<close>; \<open>cumvar[-1]\<close> on an empty array raises
  \<open>IndexError\<close>; reading a model attribute that was never set raises
  \<open>AttributeError\<close>; a missing dictionary key raises \<open>KeyError\<close>.
\<close>

datatype error =
    ValueError string
  | NotImplementedError string
  | RuntimeError string
  | IndexError
  | AttributeError string
  | KeyError string

text \<open>
  A numpy float is a finite number, one of the two infinities or not-a-number. Finite
  values are taken as real numbers: rounding and overflow are outside this model, and
  a zero is the positive zero (the only zeros that reach a division below are
  \<open>log 1.0\<close> and a sum of squares). The operations follow IEEE 754 as numpy
  applies it elementwise: a division by zero or a logarithm of zero gives a warning and
  an infinity or a NaN, never an exception.
\<close>

datatype npfloat = Fin real | PInf | NInf | NaN

fun np_neg :: "npfloat \<Rightarrow> npfloat" where
  "np_neg (Fin a) = Fin (- a)"
| "np_neg PInf = NInf"
| "np_neg NInf = PInf"
| "np_neg NaN = NaN"

fun np_abs :: "npfloat \<Rightarrow> npfloat" where
  "np_abs (Fin a) = Fin \<bar>a\<bar>"
| "np_abs PInf = PInf"
| "np_abs NInf = PInf"
| "np_abs NaN = NaN"

fun np_log :: "npfloat \<Rightarrow> npfloat" where
  "np_log (Fin a) = (if 0 < a then Fin (ln a) else if a = 0 then NInf else NaN)"
| "np_log PInf = PInf"
| "np_log NInf = NaN"
| "np_log NaN = NaN"

fun np_add :: "npfloat \<Rightarrow> npfloat \<Rightarrow> npfloat" where
  "np_add (Fin a) (Fin b) = Fin (a + b)"
| "np_add NaN _ = NaN"
| "np_add _ NaN = NaN"
| "np_add PInf NInf = NaN"
| "np_add NInf PInf = NaN"
| "np_add PInf _ = PInf"
| "np_add _ PInf = PInf"
| "np_add NInf _ = NInf"
| "np_add _ NInf = NInf"

definition np_sub :: "npfloat \<Rightarrow> npfloat \<Rightarrow> npfloat" where
  "np_sub a b = np_add a (np_neg b)"

fun np_sign_inf :: "real \<Rightarrow> npfloat" where
  "np_sign_inf a = (if 0 < a then PInf else if a < 0 then NInf else NaN)"

fun np_mul :: "npfloat \<Rightarrow> npfloat \<Rightarrow> npfloat" where
  "np_mul (Fin a) (Fin b) = Fin (a * b)"
| "np_mul NaN _ = NaN"
| "np_mul _ NaN = NaN"
| "np_mul (Fin a) PInf = np_sign_inf a"
| "np_mul (Fin a) NInf = np_sign_inf (- a)"
| "np_mul PInf (Fin b) = np_sign_inf b"
| "np_mul NInf (Fin b) = np_sign_inf (- b)"
| "np_mul PInf PInf = PInf"
| "np_mul NInf NInf = PInf"
| "np_mul PInf NInf = NInf"
| "np_mul NInf PInf = NInf"

fun np_div :: "npfloat \<Rightarrow> npfloat \<Rightarrow> npfloat" where
  "np_div (Fin a) (Fin b) = (if b \<noteq> 0 then Fin (a / b) else np_sign_inf a)"
| "np_div NaN _ = NaN"
| "np_div _ NaN = NaN"
| "np_div (Fin a) PInf = Fin 0"
| "np_div (Fin a) NInf = Fin 0"
| "np_div PInf (Fin b) = (if 0 \<le> b then PInf else NInf)"
| "np_div NInf (Fin b) = (if 0 \<le> b then NInf else PInf)"
| "np_div PInf PInf = NaN"
| "np_div PInf NInf = NaN"
| "np_div NInf PInf = NaN"
| "np_div NInf NInf = NaN"

fun np_tanh :: "npfloat \<Rightarrow> npfloat" where
  "np_tanh (Fin a) = Fin (tanh a)"
| "np_tanh PInf = Fin 1"
| "np_tanh NInf = Fin (- 1)"
| "np_tanh NaN = NaN"

fun np_sqrt :: "npfloat \<Rightarrow> npfloat" where
  "np_sqrt (Fin a) = (if 0 \<le> a then Fin (sqrt a) else NaN)"
| "np_sqrt PInf = PInf"
| "np_sqrt NInf = NaN"
| "np_sqrt NaN = NaN"

fun is_inf :: "npfloat \<Rightarrow> bool" where
  "is_inf PInf = True"
| "is_inf NInf = True"
| "is_inf _ = False"

text \<open>A two-dimensional array is the list of its rows; a one-dimensional array is a list.\<close>

type_synonym vec = "real list"
type_synonym matrix = "real list list"

section \<open>The estimator's parameters and its constructor\<close>

text \<open>
  The parameters that \<open>_TICA.__init__\<close> stores with \<open>set_params\<close>. The deprecated
  \<open>mean\<close> argument is stored and never read, so it is left out.
\<close>

record params =
  lag :: int
  dim :: int
  var_cutoff :: real
  kinetic_map :: bool
  commute_map :: bool
  epsilon :: real
  remove_mean :: bool
  reversible :: bool
  stride :: int
  skip :: int

text \<open>The default of the \<open>var_cutoff\<close> argument, read back by \<open>get_default_args\<close>.\<close>

definition default_var_cutoff :: real where
  "default_var_cutoff = 95 / 100"

text \<open>
  \<open>_TICA.__init__\<close>: three checks in the source's order, then \<open>var_cutoff\<close> is
  overwritten by 1.0 when \<open>dim > -1\<close>, and the parameters are stored.
\<close>

definition init :: "int \<Rightarrow> int \<Rightarrow> real \<Rightarrow> bool \<Rightarrow> bool \<Rightarrow> real \<Rightarrow> int \<Rightarrow> bool \<Rightarrow> int \<Rightarrow> bool
    \<Rightarrow> error + params" where
  "init lag' dim' var_cutoff' kinetic_map' commute_map' epsilon' stride' remove_mean' skip' reversible' =
     (if dim' \<noteq> - 1 \<and> var_cutoff' \<noteq> default_var_cutoff then
        Inl (ValueError ''Trying to set both the number of dimension and the subspace variance. Use either or.'')
      else if kinetic_map' \<and> commute_map' then
        Inl (ValueError ''Trying to use both kinetic_map and commute_map. Use either or.'')
      else if (kinetic_map' \<or> commute_map') \<and> \<not> reversible' then
        Inl (NotImplementedError ''kinetic_map and commute_map are not yet implemented for irreversible processes.'')
      else
        Inr \<lparr> lag = lag', dim = dim',
              var_cutoff = (if dim' > - 1 then 1 else var_cutoff'),
              kinetic_map = kinetic_map', commute_map = commute_map',
              epsilon = epsilon', remove_mean = remove_mean', reversible = reversible',
              stride = stride', skip = skip' \<rparr>)"

section \<open>Array operations of numpy used by the estimator\<close>

text \<open>Sequencing of calls that may raise: the first exception ends the computation.\<close>

definition bind_err :: "error + 'a \<Rightarrow> ('a \<Rightarrow> error + 'b) \<Rightarrow> error + 'b" where
  "bind_err r f = (case r of Inl e \<Rightarrow> Inl e | Inr x \<Rightarrow> f x)"

text \<open>
  A Python slice \<open>xs[0:d]\<close>: a negative bound counts from the end, and bounds beyond
  the array are clipped.
\<close>

definition py_take :: "int \<Rightarrow> 'a list \<Rightarrow> 'a list" where
  "py_take d xs = (if 0 \<le> d then take (nat d) xs else take (length xs - nat (- d)) xs)"

definition ncols :: "'a list list \<Rightarrow> nat" where
  "ncols A = (case A of [] \<Rightarrow> 0 | r # _ \<Rightarrow> length r)"

text \<open>
  \<open>np.dot\<close> of a vector and a matrix, and of two matrices: the inner dimensions must
  agree, otherwise numpy raises \<open>ValueError\<close>. An array without rows has lost its
  number of columns in this representation, so its shape check passes.
\<close>

definition row_times :: "vec \<Rightarrow> matrix \<Rightarrow> vec" where
  "row_times v B = map (\<lambda>j. \<Sum>k\<leftarrow>[0..<length B]. v ! k * B ! k ! j) [0..<ncols B]"

definition dot_vm :: "vec \<Rightarrow> matrix \<Rightarrow> error + vec" where
  "dot_vm v B = (if length v = length B then Inr (row_times v B)
                 else Inl (ValueError ''shapes not aligned''))"

definition dot_mm :: "matrix \<Rightarrow> matrix \<Rightarrow> error + matrix" where
  "dot_mm A B = (if list_all (\<lambda>r. length r = length B) A then Inr (map (\<lambda>r. row_times r B) A)
                 else Inl (ValueError ''shapes not aligned''))"

text \<open>
  \<open>X - mean\<close> for a two-dimensional \<open>X\<close> and a one-dimensional \<open>mean\<close>, with
  numpy's broadcasting: equal lengths are subtracted elementwise, a length of one on
  either side is stretched, anything else raises \<open>ValueError\<close>.
\<close>

definition sub_rows :: "matrix \<Rightarrow> vec \<Rightarrow> error + matrix" where
  "sub_rows X mu =
     (if list_all (\<lambda>r. length r = length mu) X then Inr (map (\<lambda>r. map2 (-) r mu) X)
      else if length mu = 1 then Inr (map (map (\<lambda>x. x - mu ! 0)) X)
      else if list_all (\<lambda>r. length r = 1) X then Inr (map (\<lambda>r. map (\<lambda>m. r ! 0 - m) mu) X)
      else Inl (ValueError ''operands could not be broadcast together''))"

text \<open>
  The in-place \<open>Y *= v\<close> for a two-dimensional \<open>Y\<close> and a one-dimensional \<open>v\<close>:
  column \<open>j\<close> of \<open>Y\<close> is multiplied by \<open>v[j]\<close>; \<open>v\<close> of length one is stretched; the
  left operand of an in-place operation is never stretched.
\<close>

definition imul_cols :: "npfloat list list \<Rightarrow> npfloat list \<Rightarrow> error + npfloat list list" where
  "imul_cols Y v =
     (if list_all (\<lambda>r. length r = length v) Y then Inr (map (\<lambda>r. map2 np_mul r v) Y)
      else if length v = 1 then Inr (map (map (\<lambda>y. np_mul y (v ! 0))) Y)
      else Inl (ValueError ''operands could not be broadcast together''))"

text \<open>\<open>np.cumsum\<close>: the running sums, from left to right.\<close>

fun cumsum_from :: "real \<Rightarrow> real list \<Rightarrow> real list" where
  "cumsum_from a [] = []"
| "cumsum_from a (x # xs) = (a + x) # cumsum_from (a + x) xs"

definition cumsum :: "real list \<Rightarrow> real list" where
  "cumsum xs = cumsum_from 0 xs"

text \<open>
  Comparison of numpy floats, and \<open>np.searchsorted(a, v)\<close> with the default
  \<open>side='left'\<close>, as numpy documents it for a sorted array: the index \<open>i\<close> with
  \<open>a[i-1] < v \<le> a[i]\<close>, that is the number of leading entries below \<open>v\<close>.
\<close>

fun np_less :: "npfloat \<Rightarrow> npfloat \<Rightarrow> bool" where
  "np_less (Fin a) (Fin b) = (a < b)"
| "np_less NaN _ = False"
| "np_less _ NaN = False"
| "np_less PInf _ = False"
| "np_less NInf NInf = False"
| "np_less NInf _ = True"
| "np_less (Fin _) PInf = True"
| "np_less (Fin _) NInf = False"

definition searchsorted :: "npfloat list \<Rightarrow> real \<Rightarrow> nat" where
  "searchsorted a v = length (takeWhile (\<lambda>c. np_less c (Fin v)) a)"

section \<open>The estimator: state, collaborators and operations\<close>

text \<open>
  The running statistics held by the covariance estimator \<open>self._covar\<close> (mean,
  covariance and time-lagged covariance), and the attributes of \<open>TICAModel\<close>, each
  absent until \<open>update_model_params\<close> sets it.
\<close>

record covar_est =
  c_mean :: vec
  c_cov :: matrix
  c_cov_tau :: matrix

record tica_model =
  m_mean :: "vec option"
  m_cov :: "matrix option"
  m_cov_tau :: "matrix option"
  m_cumvar :: "npfloat list option"
  m_eigenvalues :: "vec option"
  m_eigenvectors :: "matrix option"

text \<open>
  The estimator object: its parameters, its covariance estimator, its model, the flag
  \<open>_estimated\<close> and the input dimension of the attached data producer, if any.
\<close>

record tica =
  prm :: params
  covar :: covar_est
  model :: tica_model
  estimated :: bool
  data_producer :: "int option"

text \<open>
  An input source, as \<open>pyemma.coordinates.source\<close> returns it: what the code reads
  of it is its \<open>dimension()\<close>; the data go to the covariance estimator.
\<close>

record source =
  src_dimension :: int
  src_data :: "matrix list"

text \<open>
  The collaborators whose code is elsewhere are parameters of the operations: the
  covariance estimator's \<open>partial_fit\<close> and \<open>estimate\<close> (each takes the running
  statistics and a source and returns the new statistics or raises), and the
  generalized eigensolver \<open>eig_corr(C0, Ct, epsilon)\<close>, which returns eigenvalues and
  eigenvectors or raises.
\<close>

type_synonym accumulator = "covar_est \<Rightarrow> source \<Rightarrow> error + covar_est"
type_synonym eigensolver = "matrix \<Rightarrow> matrix \<Rightarrow> real \<Rightarrow> error + (vec \<times> matrix)"

text \<open>
  Lines 309-310 and 471-472: \<open>cumvar = np.cumsum(np.abs(eigenvalues) ** 2)\<close>, then
  \<open>cumvar /= cumvar[-1]\<close>. Indexing an empty array raises \<open>IndexError\<close>; the division
  is numpy's, so a zero total gives NaN entries and no exception.
\<close>

definition compute_cumvar :: "vec \<Rightarrow> error + npfloat list" where
  "compute_cumvar eigenvalues =
     (let cumvar = cumsum (map (\<lambda>l. \<bar>l\<bar> ^ 2) eigenvalues) in
      if cumvar = [] then Inl IndexError
      else Inr (map (\<lambda>c. np_div (Fin c) (Fin (last cumvar))) cumvar))"

text \<open>\<open>TICA._diagonalize\<close>.\<close>

definition diagonalize :: "eigensolver \<Rightarrow> tica \<Rightarrow> error + tica" where
  "diagonalize eig_corr t =
     (case m_cov_tau (model t) of
        None \<Rightarrow> Inl (AttributeError ''cov_tau'')
      | Some ct \<Rightarrow>
          bind_err (eig_corr (c_cov (covar t)) ct (epsilon (prm t))) (\<lambda>(eigenvalues, eigenvectors).
          bind_err (compute_cumvar eigenvalues) (\<lambda>cumvar.
          Inr (t\<lparr> model := (model t)\<lparr> m_cumvar := Some cumvar,
                                      m_eigenvalues := Some eigenvalues,
                                      m_eigenvectors := Some eigenvectors \<rparr>,
                  estimated := True \<rparr>))))"

text \<open>
  The decorator \<open>_lazy_estimation\<close>: diagonalize first unless the flag is set, then
  run the decorated getter. The three decorated properties of \<open>TICA\<close> follow.
\<close>

definition lazy_estimation :: "eigensolver \<Rightarrow> tica \<Rightarrow> error + tica" where
  "lazy_estimation eig_corr t = (if \<not> estimated t then diagonalize eig_corr t else Inr t)"

definition get_attr :: "string \<Rightarrow> 'a option \<Rightarrow> tica \<Rightarrow> error + ('a \<times> tica)" where
  "get_attr name a t = (case a of None \<Rightarrow> Inl (AttributeError name) | Some v \<Rightarrow> Inr (v, t))"

definition eigenvalues :: "eigensolver \<Rightarrow> tica \<Rightarrow> error + (vec \<times> tica)" where
  "eigenvalues eig_corr t =
     bind_err (lazy_estimation eig_corr t) (\<lambda>t'. get_attr ''eigenvalues'' (m_eigenvalues (model t')) t')"

definition eigenvectors :: "eigensolver \<Rightarrow> tica \<Rightarrow> error + (matrix \<times> tica)" where
  "eigenvectors eig_corr t =
     bind_err (lazy_estimation eig_corr t) (\<lambda>t'. get_attr ''eigenvectors'' (m_eigenvectors (model t')) t')"

definition cumvar :: "eigensolver \<Rightarrow> tica \<Rightarrow> error + (npfloat list \<times> tica)" where
  "cumvar eig_corr t =
     bind_err (lazy_estimation eig_corr t) (\<lambda>t'. get_attr ''cumvar'' (m_cumvar (model t')) t')"

text \<open>
  \<open>_TICA.timescales\<close>: \<open>-self.lag / np.log(np.abs(self.eigenvalues))\<close>, elementwise,
  on the eigenvalues as the lazy property returns them.
\<close>

definition timescale_of :: "int \<Rightarrow> real \<Rightarrow> npfloat" where
  "timescale_of lg l = np_div (Fin (- real_of_int lg)) (np_log (np_abs (Fin l)))"

definition timescales :: "eigensolver \<Rightarrow> tica \<Rightarrow> error + (npfloat list \<times> tica)" where
  "timescales eig_corr t =
     bind_err (eigenvalues eig_corr t) (\<lambda>(ev, t'). Inr (map (timescale_of (lag (prm t'))) ev, t'))"

text \<open>\<open>_TICA.dimension\<close>, branch by branch in the source's order.\<close>

definition dimension :: "eigensolver \<Rightarrow> tica \<Rightarrow> error + (int \<times> tica)" where
  "dimension eig_corr t =
     (if dim (prm t) > - 1 then Inr (dim (prm t), t)
      else if dim (prm t) \<noteq> - 1 \<and> \<not> estimated t then Inr (dim (prm t), t)
      else if estimated t then
        bind_err (eigenvalues eig_corr t) (\<lambda>(ev, t1).
          if var_cutoff (prm t1) < 1 then
            bind_err (cumvar eig_corr t1) (\<lambda>(cv, t2).
              Inr (min (int (length ev)) (int (searchsorted cv (var_cutoff (prm t2))) + 1), t2))
          else Inr (int (length ev), t1))
      else if var_cutoff (prm t) = 1 then
        (case data_producer t of
           None \<Rightarrow> Inl (AttributeError ''data_producer'')
         | Some n \<Rightarrow> Inr (n, t))
      else Inl (RuntimeError ''Requested dimension, but the dimension depends on the cumulative variance and the transformer has not yet been estimated. Call estimate() before.''))"

text \<open>
  \<open>update_model_params(mean=..., cov=..., cov_tau=...)\<close> with the statistics of the
  covariance estimator, as \<open>partial_fit\<close> and \<open>_estimate\<close> call it.
\<close>

definition copy_statistics :: "covar_est \<Rightarrow> tica_model \<Rightarrow> tica_model" where
  "copy_statistics c m = m\<lparr> m_mean := Some (c_mean c), m_cov := Some (c_cov c),
                            m_cov_tau := Some (c_cov_tau c) \<rparr>"

definition dim_error :: error where
  "dim_error = RuntimeError ''requested more output dimensions than dimension of input data''"

text \<open>\<open>TICA.partial_fit\<close>: the dimension check, the accumulation, the copy, the flag.\<close>

definition partial_fit :: "accumulator \<Rightarrow> tica \<Rightarrow> source \<Rightarrow> error + tica" where
  "partial_fit covar_partial_fit t X =
     (let indim = src_dimension X in
      if \<not> dim (prm t) \<le> indim then Inl dim_error
      else bind_err (covar_partial_fit (covar t) X) (\<lambda>c.
             Inr (t\<lparr> covar := c, model := copy_statistics c (model t), estimated := False \<rparr>)))"

text \<open>
  \<open>TICA._estimate\<close>: the dimension check, the one-shot accumulation, the copy, then
  the eager diagonalization.
\<close>

definition estimate :: "accumulator \<Rightarrow> eigensolver \<Rightarrow> tica \<Rightarrow> source \<Rightarrow> error + tica" where
  "estimate covar_estimate eig_corr t iterable =
     (let indim = src_dimension iterable in
      if \<not> dim (prm t) \<le> indim then Inl dim_error
      else bind_err (covar_estimate (covar t) iterable) (\<lambda>c.
             diagonalize eig_corr (t\<lparr> covar := c, model := copy_statistics c (model t) \<rparr>)))"

text \<open>
  Line 341: \<open>0.5 * timescales * np.tanh(np.pi * ((timescales - self.lag) / self.lag) + 1)\<close>
  for one timescale, and line 343's factor \<open>np.sqrt(regularized_timescales / 2)\<close>.
\<close>

definition regularized_timescale :: "int \<Rightarrow> npfloat \<Rightarrow> npfloat" where
  "regularized_timescale lg ts =
     np_mul (np_mul (Fin (1 / 2)) ts)
            (np_tanh (np_add (np_mul (Fin pi)
                                     (np_div (np_sub ts (Fin (real_of_int lg))) (Fin (real_of_int lg))))
                             (Fin 1)))"

definition commute_factor :: "int \<Rightarrow> npfloat \<Rightarrow> npfloat" where
  "commute_factor lg ts = np_sqrt (np_div (regularized_timescale lg ts) (Fin 2))"

text \<open>
  \<open>TICA._transform_array\<close>, statement by statement. Every read of \<open>eigenvectors\<close>,
  \<open>eigenvalues\<close>, \<open>timescales\<close> and every call of \<open>dimension()\<close> is made where the
  source makes it, and the state is threaded through them. The final
  \<open>astype(self.output_type())\<close> reads the eigenvectors and the dimension once more
  and changes the precision only, which this model of numbers does not see.
\<close>

definition transform_array :: "eigensolver \<Rightarrow> tica \<Rightarrow> matrix \<Rightarrow> error + (npfloat list list \<times> tica)" where
  "transform_array eig_corr t X =
     (case m_mean (model t) of
        None \<Rightarrow> Inl (AttributeError ''mean'')
      | Some mu \<Rightarrow>
        bind_err (sub_rows X mu) (\<lambda>X_meanfree.
        bind_err (eigenvectors eig_corr t) (\<lambda>(evec, t1).
        bind_err (dimension eig_corr t1) (\<lambda>(d, t2).
        bind_err (dot_mm X_meanfree (map (py_take d) evec)) (\<lambda>Y0.
        let Y = map (map Fin) Y0 in
        if kinetic_map (prm t2) \<and> commute_map (prm t2) then
          Inl (ValueError ''Trying to use both kinetic_map and commute_map. Use either or.'')
        else
        bind_err (if kinetic_map (prm t2) then
                    bind_err (eigenvalues eig_corr t2) (\<lambda>(ev, t3).
                    bind_err (dimension eig_corr t3) (\<lambda>(d3, t4).
                    bind_err (imul_cols Y (map Fin (py_take d3 ev))) (\<lambda>Y'. Inr (Y', t4))))
                  else Inr (Y, t2)) (\<lambda>(Y1, t5).
        bind_err (if commute_map (prm t5) then
                    bind_err (timescales eig_corr t5) (\<lambda>(ts, t6).
                    bind_err (dimension eig_corr t6) (\<lambda>(d6, t7).
                    bind_err (imul_cols Y1 (map (commute_factor (lag (prm t7))) (py_take d6 ts)))
                             (\<lambda>Y'. Inr (Y', t7))))
                  else Inr (Y1, t5)) (\<lambda>(Y2, t8).
        bind_err (eigenvectors eig_corr t8) (\<lambda>(_, t9).
        bind_err (dimension eig_corr t9) (\<lambda>(_, t10).
        Inr (Y2, t10))))))))))"

section \<open>The equilibrium-corrected estimator\<close>

text \<open>
  From \<open>R_eq\<close> on, the arrays of \<open>EquilibriumCorrectedTICA._estimate\<close> are built
  from \<open>s ** -0.5\<close>, which is an infinity at zero and NaN below, so they are arrays
  of numpy floats. Sums run from left to right.
\<close>

type_synonym npmatrix = "npfloat list list"

definition lift_v :: "vec \<Rightarrow> npfloat list" where
  "lift_v v = map Fin v"

definition lift_m :: "matrix \<Rightarrow> npmatrix" where
  "lift_m A = map (map Fin) A"

definition np_row_times :: "npfloat list \<Rightarrow> npmatrix \<Rightarrow> npfloat list" where
  "np_row_times v B =
     map (\<lambda>j. foldl np_add (Fin 0) (map (\<lambda>k. np_mul (v ! k) (B ! k ! j)) [0..<length B]))
         [0..<ncols B]"

definition np_dot_vm :: "npfloat list \<Rightarrow> npmatrix \<Rightarrow> error + npfloat list" where
  "np_dot_vm v B = (if length v = length B then Inr (np_row_times v B)
                    else Inl (ValueError ''shapes not aligned''))"

definition np_dot_mm :: "npmatrix \<Rightarrow> npmatrix \<Rightarrow> error + npmatrix" where
  "np_dot_mm A B = (if list_all (\<lambda>r. length r = length B) A then Inr (map (\<lambda>r. np_row_times r B) A)
                    else Inl (ValueError ''shapes not aligned''))"

text \<open>
  The same products for a right operand that is a slice \<open>W[0:r, :]\<close>: the slice
  keeps the \<open>n\<close> columns of \<open>W\<close> also when it has no row, so the number of columns
  is given.
\<close>

definition np_row_times_n :: "nat \<Rightarrow> npfloat list \<Rightarrow> npmatrix \<Rightarrow> npfloat list" where
  "np_row_times_n n v B =
     map (\<lambda>j. foldl np_add (Fin 0) (map (\<lambda>k. np_mul (v ! k) (B ! k ! j)) [0..<length B])) [0..<n]"

definition np_dot_vm_n :: "nat \<Rightarrow> npfloat list \<Rightarrow> npmatrix \<Rightarrow> error + npfloat list" where
  "np_dot_vm_n n v B = (if length v = length B then Inr (np_row_times_n n v B)
                        else Inl (ValueError ''shapes not aligned''))"

definition np_dot_mm_n :: "nat \<Rightarrow> npmatrix \<Rightarrow> npmatrix \<Rightarrow> error + npmatrix" where
  "np_dot_mm_n n A B =
     (if list_all (\<lambda>r. length r = length B) A then Inr (map (\<lambda>r. np_row_times_n n r B) A)
      else Inl (ValueError ''shapes not aligned''))"

definition mat_transpose :: "'a list list \<Rightarrow> 'a list list" where
  "mat_transpose A = map (\<lambda>j. map (\<lambda>r. r ! j) A) [0..<ncols A]"

text \<open>\<open>np.diag\<close> of a one-dimensional array, and \<open>x ** -0.5\<close> for one entry.\<close>

definition np_diag :: "npfloat list \<Rightarrow> npmatrix" where
  "np_diag v = map (\<lambda>i. map (\<lambda>j. if i = j then v ! i else Fin 0) [0..<length v]) [0..<length v]"

definition pow_neg_half :: "real \<Rightarrow> npfloat" where
  "pow_neg_half x = (if 0 < x then Fin (1 / sqrt x) else if x = 0 then PInf else NaN)"

text \<open>
  Elementwise sums and differences with numpy's broadcasting: axes of equal length are
  combined entry by entry, an axis of length one is stretched to the length of the
  other operand's axis, anything else raises \<open>ValueError\<close>. \<open>add_mm\<close> is the
  sum of two matrices, \<open>np_add_rows\<close> a row added to every row of a matrix,
  \<open>np_sub_v\<close> the difference of two rows.
\<close>

definition stretch :: "nat \<Rightarrow> 'a list \<Rightarrow> 'a list" where
  "stretch n xs = (if length xs = 1 then replicate n (xs ! 0) else xs)"

definition add_mm :: "matrix \<Rightarrow> matrix \<Rightarrow> error + matrix" where
  "add_mm A B =
     (let ra = length A; rb = length B; ca = ncols A; cb = ncols B in
      if (ra = rb \<or> ra = 1 \<or> rb = 1) \<and> (ca = cb \<or> ca = 1 \<or> cb = 1) then
        (let n = (if ra = 1 then rb else ra); m = (if ca = 1 then cb else ca)
         in Inr (map2 (\<lambda>r1 r2. map2 (+) (stretch m r1) (stretch m r2)) (stretch n A) (stretch n B)))
      else Inl (ValueError ''operands could not be broadcast together''))"

definition np_add_rows :: "npmatrix \<Rightarrow> npfloat list \<Rightarrow> error + npmatrix" where
  "np_add_rows Y c =
     (if list_all (\<lambda>r. length r = length c) Y then Inr (map (\<lambda>r. map2 np_add r c) Y)
      else if length c = 1 then Inr (map (map (\<lambda>y. np_add y (c ! 0))) Y)
      else if list_all (\<lambda>r. length r = 1) Y then Inr (map (\<lambda>r. map (\<lambda>x. np_add (r ! 0) x) c) Y)
      else Inl (ValueError ''operands could not be broadcast together''))"

definition np_sub_v :: "npfloat list \<Rightarrow> npfloat list \<Rightarrow> error + npfloat list" where
  "np_sub_v a b =
     (if length a = length b then Inr (map2 np_sub a b)
      else if length b = 1 then Inr (map (\<lambda>x. np_sub x (b ! 0)) a)
      else if length a = 1 then Inr (map (\<lambda>y. np_sub (a ! 0) y) b)
      else Inl (ValueError ''operands could not be broadcast together''))"

text \<open>
  What the Koopman estimator hands over after its \<open>estimate\<close>: the operator \<open>K\<close>, the
  change of basis \<open>R\<close>, the reference mean and the weights.
\<close>

record koopman =
  k_K :: matrix
  k_R :: matrix
  k_mean :: vec
  k_weights :: "vec list"

text \<open>
  The collaborators of the equilibrium-corrected estimator: the Koopman estimation over
  a source, the weighted covariance estimation (it is constructed from the Koopman
  weights and reference mean), and \<open>scipy.linalg.eigh\<close>, which returns real eigenvalues
  and eigenvectors or raises.
\<close>

type_synonym koopman_estimator = "params \<Rightarrow> source \<Rightarrow> error + koopman"
type_synonym weighted_accumulator = "params \<Rightarrow> koopman \<Rightarrow> source \<Rightarrow> error + covar_est"
type_synonym eigh_solver = "npmatrix \<Rightarrow> error + (vec \<times> matrix)"

text \<open>
  Modelled from the spec: \<open>sort_by_norm\<close> of \<open>pyemma._ext.variational.solvers.direct\<close>,
  whose code is not among the sources. It orders eigenpairs by descending norm of the
  eigenvalue, exact ties in the order of discovery; the columns of the eigenvector
  matrix follow their eigenvalues. A row too short for a column index is numpy's
  \<open>IndexError\<close>.
\<close>

definition take_columns :: "nat list \<Rightarrow> 'a list list \<Rightarrow> error + 'a list list" where
  "take_columns ind Q =
     (if list_all (\<lambda>r. list_all (\<lambda>i. i < length r) ind) Q then Inr (map (\<lambda>r. map (\<lambda>i. r ! i) ind) Q)
      else Inl IndexError)"

definition sort_by_norm :: "vec \<Rightarrow> matrix \<Rightarrow> error + (vec \<times> matrix)" where
  "sort_by_norm evals evecs =
     (let I = sort_key (\<lambda>i. - \<bar>evals ! i\<bar>) [0..<length evals] in
      bind_err (take_columns I evecs) (\<lambda>evecs2. Inr (map (\<lambda>i. evals ! i) I, evecs2)))"

text \<open>\<open>np.min\<close>, which raises \<open>ValueError\<close> on an empty array.\<close>

fun min_from :: "real \<Rightarrow> real list \<Rightarrow> real" where
  "min_from a [] = a"
| "min_from a (x # xs) = min_from (min a x) xs"

definition np_min :: "vec \<Rightarrow> error + real" where
  "np_min s = (case s of [] \<Rightarrow> Inl (ValueError ''zero-size array to reduction operation minimum which has no identity'')
               | x # xs \<Rightarrow> Inr (min_from x xs))"

text \<open>
  Lines 438-444: \<open>mean.dot(R)\<close> is computed first, for \<open>_mean_pc_1\<close>; then the
  matrix \<open>C_0_eq\<close> in the basis of the principal components and the constant. Its
  top-left block is \<open>R.T.dot(C0).dot(R)\<close>, its last column and last row are
  \<open>mean.dot(R)\<close>, its corner is 1. An assignment of the wrong shape raises
  \<open>ValueError\<close>.
\<close>

definition build_C_0_eq :: "matrix \<Rightarrow> matrix \<Rightarrow> vec \<Rightarrow> error + matrix" where
  "build_C_0_eq R C0 mean' =
     (let r = ncols R in
      bind_err (dot_vm mean' R) (\<lambda>mean_pc.
      bind_err (dot_mm (mat_transpose R) C0) (\<lambda>RtC0.
      bind_err (dot_mm RtC0 R) (\<lambda>block.
      bind_err (dot_vm mean' R) (\<lambda>m.
      if length block = r \<and> list_all (\<lambda>row. length row = r) block \<and> length m = r
      then Inr (map2 (\<lambda>row mi. row @ [mi]) block m @ [m @ [1]])
      else Inl (ValueError ''could not broadcast input array''))))))"

text \<open>Lines 449-453: the cutoff \<open>ep0\<close>, from the configured epsilon and the least eigenvalue.\<close>

definition adjusted_epsilon :: "real \<Rightarrow> real \<Rightarrow> real" where
  "adjusted_epsilon eps evmin = (if evmin < 0 then max eps (- evmin) else eps)"

text \<open>
  Lines 449-457, on the eigenpairs \<open>s, Q\<close> of \<open>C_0_eq\<close>: the cutoff, the sorting, the
  indices of the eigenvalues whose norm exceeds the cutoff, and the selection.
\<close>

definition regularize :: "real \<Rightarrow> vec \<Rightarrow> matrix \<Rightarrow> error + (vec \<times> matrix)" where
  "regularize eps s Q =
     bind_err (np_min s) (\<lambda>evmin.
     let ep0 = adjusted_epsilon eps evmin in
     bind_err (sort_by_norm s Q) (\<lambda>(s1, Q1).
     let ind = filter (\<lambda>i. \<bar>s1 ! i\<bar> > ep0) [0..<length s1] in
     bind_err (take_columns ind Q1) (\<lambda>Q2.
     Inr (map (\<lambda>i. s1 ! i) ind, Q2))))"

text \<open>Line 458: \<open>R_eq = np.dot(Q, np.diag(s ** -0.5))\<close>.\<close>

definition whitening :: "vec \<Rightarrow> matrix \<Rightarrow> error + npmatrix" where
  "whitening s Q = np_dot_mm (lift_m Q) (np_diag (map pow_neg_half s))"

text \<open>Line 460: \<open>K_eq = 0.5 * R_eq.T.dot(C_0_eq.dot(K) + K.T.dot(C_0_eq)).dot(R_eq)\<close>.\<close>

definition symmetrized_K :: "npmatrix \<Rightarrow> matrix \<Rightarrow> matrix \<Rightarrow> error + npmatrix" where
  "symmetrized_K R_eq C_0_eq K =
     bind_err (dot_mm C_0_eq K) (\<lambda>A.
     bind_err (dot_mm (mat_transpose K) C_0_eq) (\<lambda>B.
     bind_err (add_mm A B) (\<lambda>S.
     bind_err (np_dot_mm (mat_transpose R_eq) (lift_m S)) (\<lambda>L.
     bind_err (np_dot_mm L R_eq) (\<lambda>P.
     Inr (map (map (np_mul (Fin (1 / 2)))) P))))))"

text \<open>
  Lines 465-467: \<open>W = R_eq.dot(V)\<close>, \<open>self._tr = R.dot(W[0:r, :])\<close> and
  \<open>self._tr_c = W[r, :] - x_mean_0.T.dot(R).dot(W[0:r, :])\<close>, with \<open>r\<close> the number of
  columns of \<open>R\<close>. Row \<open>r\<close> of \<open>W\<close> is read before the products on its right.
\<close>

definition compose_transform :: "matrix \<Rightarrow> vec \<Rightarrow> npmatrix \<Rightarrow> matrix \<Rightarrow> error + (npmatrix \<times> npfloat list)" where
  "compose_transform R x_mean_0 R_eq V =
     (let r = ncols R in
      bind_err (np_dot_mm R_eq (lift_m V)) (\<lambda>W.
      bind_err (np_dot_mm_n (ncols W) (lift_m R) (take r W)) (\<lambda>tr'.
      if \<not> r < length W then Inl IndexError
      else
      bind_err (dot_vm x_mean_0 R) (\<lambda>mR.
      bind_err (np_dot_vm_n (ncols W) (lift_v mR) (take r W)) (\<lambda>off.
      bind_err (np_sub_v (W ! r) off) (\<lambda>tr_c'.
      Inr (tr', tr_c')))))))"

text \<open>
  The equilibrium-corrected estimator object: the fields of the base estimator and the
  composed transform \<open>_tr\<close>, \<open>_tr_c\<close>, absent until \<open>_estimate\<close> has run. The
  attributes kept for testing (\<open>_mean_pc_1\<close>, \<open>_cov_pc_1\<close>, \<open>_cov_tau_pc_1\<close>) are
  copies of values computed on the way and are left out.
\<close>

record eq_tica = tica +
  tr :: "npmatrix option"
  tr_c :: "npfloat list option"

text \<open>\<open>EquilibriumCorrectedTICA._estimate\<close>, in the source's order.\<close>

definition estimate_eq :: "koopman_estimator \<Rightarrow> weighted_accumulator \<Rightarrow> eigh_solver
    \<Rightarrow> eq_tica \<Rightarrow> source \<Rightarrow> error + eq_tica" where
  "estimate_eq koop_estimate covar_estimate eigh t iterable =
     bind_err (koop_estimate (prm t) iterable) (\<lambda>koop.
     let K = k_K koop; R = k_R koop; x_mean_0 = k_mean koop in
     bind_err (covar_estimate (prm t) koop iterable) (\<lambda>c.
     let C0 = c_cov c in
     bind_err (build_C_0_eq R C0 (c_mean c)) (\<lambda>C_0_eq.
     bind_err (eigh (lift_m C_0_eq)) (\<lambda>(s, Q).
     bind_err (regularize (epsilon (prm t)) s Q) (\<lambda>(s', Q').
     bind_err (whitening s' Q') (\<lambda>R_eq.
     bind_err (symmetrized_K R_eq C_0_eq K) (\<lambda>K_eq.
     bind_err (eigh K_eq) (\<lambda>(d0, V0).
     bind_err (sort_by_norm d0 V0) (\<lambda>(d, V).
     bind_err (compose_transform R x_mean_0 R_eq V) (\<lambda>(tr', tr_c').
     bind_err (compute_cumvar d) (\<lambda>cumvar'.
     Inr (t\<lparr> covar := c,
             model := (model t)\<lparr> m_mean := Some (c_mean c), m_cumvar := Some cumvar',
                                 m_eigenvalues := Some d \<rparr>,
             estimated := True,
             tr := Some tr', tr_c := Some tr_c' \<rparr>))))))))))))"

text \<open>\<open>EquilibriumCorrectedTICA._transform_array\<close>: \<open>X.dot(self._tr) + self._tr_c\<close>.\<close>

definition transform_array_eq :: "eq_tica \<Rightarrow> matrix \<Rightarrow> error + npmatrix" where
  "transform_array_eq t X =
     (case tr t of
        None \<Rightarrow> Inl (AttributeError ''_tr'')
      | Some tr' \<Rightarrow>
          bind_err (np_dot_mm (lift_m X) tr') (\<lambda>Y.
          (case tr_c t of
             None \<Rightarrow> Inl (AttributeError ''_tr_c'')
           | Some tr_c' \<Rightarrow> np_add_rows Y tr_c')))"

section \<open>The NPZ handler of the serializer\<close>

text \<open>
  \<open>NumpyNPZHandler\<close> composes four library functions: \<open>np.savez_compressed\<close>,
  \<open>np.load\<close> and jsonpickle's \<open>util.b64encode\<close> and \<open>util.b64decode\<close>. The last two
  are Python's \<open>base64\<close> with the standard alphabet and \<open>=\<close> padding, and are written
  out here. A byte is a \<open>char\<close>. Three bytes give four characters; one or two
  remaining bytes give a padded group.
\<close>

type_synonym bytes = "char list"

definition b64_alphabet :: string where
  "b64_alphabet = ''ABCDEFGHIJKLMNOPQRSTUVWXYZabcdefghijklmnopqrstuvwxyz0123456789+/''"

definition b64_char :: "nat \<Rightarrow> char" where
  "b64_char n = b64_alphabet ! n"

fun index_of :: "'a \<Rightarrow> 'a list \<Rightarrow> nat" where
  "index_of x [] = 0"
| "index_of x (y # ys) = (if x = y then 0 else Suc (index_of x ys))"

definition b64_value :: "char \<Rightarrow> nat" where
  "b64_value c = index_of c b64_alphabet"

fun b64_encode_bytes :: "bytes \<Rightarrow> string" where
  "b64_encode_bytes (a # b # c # rest) =
     (let x = (of_char a :: nat); y = (of_char b :: nat); z = (of_char c :: nat)
      in [b64_char (x div 4), b64_char ((x mod 4) * 16 + y div 16),
          b64_char ((y mod 16) * 4 + z div 64), b64_char (z mod 64)] @ b64_encode_bytes rest)"
| "b64_encode_bytes [a, b] =
     (let x = (of_char a :: nat); y = (of_char b :: nat)
      in [b64_char (x div 4), b64_char ((x mod 4) * 16 + y div 16),
          b64_char ((y mod 16) * 4), CHR ''=''])"
| "b64_encode_bytes [a] =
     (let x = (of_char a :: nat)
      in [b64_char (x div 4), b64_char ((x mod 4) * 16), CHR ''='', CHR ''=''])"
| "b64_encode_bytes [] = []"

text \<open>
  Decoding takes four characters at a time; a padded group ends the data; a text whose
  length is not a multiple of four raises \<open>binascii.Error\<close>, a \<open>ValueError\<close>.
  Characters outside the alphabet are discarded before, as \<open>base64.b64decode\<close> does
  by default.
\<close>

fun b64_decode_groups :: "string \<Rightarrow> error + bytes" where
  "b64_decode_groups (p # q # r # s # rest) =
     (let v1 = b64_value p; v2 = b64_value q; v3 = b64_value r; v4 = b64_value s
      in if r = CHR ''='' then Inr [char_of (v1 * 4 + v2 div 16)]
         else if s = CHR ''='' then
           Inr [char_of (v1 * 4 + v2 div 16), char_of ((v2 mod 16) * 16 + v3 div 4)]
         else bind_err (b64_decode_groups rest) (\<lambda>tl'.
                Inr (char_of (v1 * 4 + v2 div 16) # char_of ((v2 mod 16) * 16 + v3 div 4)
                     # char_of ((v3 mod 4) * 64 + v4) # tl')))"
| "b64_decode_groups [] = Inr []"
| "b64_decode_groups _ = Inl (ValueError ''Incorrect padding'')"

definition b64encode :: "bytes \<Rightarrow> string" where
  "b64encode payload = b64_encode_bytes payload"

definition b64decode :: "string \<Rightarrow> error + bytes" where
  "b64decode payload =
     b64_decode_groups (filter (\<lambda>c. c \<in> set b64_alphabet \<or> c = CHR ''='') payload)"

text \<open>
  A numpy array, as far as the round trip compares it: shape, dtype and the bytes of its
  elements. The NPZ writer and reader are numpy's and are parameters:
  \<open>np.savez_compressed(buff, x=obj)\<close> takes the named arrays and gives the bytes of
  the archive (the buffer is rewound and read back whole), \<open>np.load\<close> opens an archive
  as a mapping from names to arrays or raises.
\<close>

record ndarray =
  nd_shape :: "nat list"
  nd_dtype :: string
  nd_buffer :: bytes

type_synonym npz_writer = "(string \<times> ndarray) list \<Rightarrow> bytes"
type_synonym npz_reader = "bytes \<Rightarrow> error + (string \<rightharpoonup> ndarray)"

text \<open>\<open>NumpyNPZHandler.flatten\<close> and \<open>NumpyNPZHandler.restore\<close>.\<close>

definition flatten :: "npz_writer \<Rightarrow> ndarray \<Rightarrow> (string \<rightharpoonup> string) \<Rightarrow> (string \<rightharpoonup> string)" where
  "flatten savez_compressed obj data =
     (let buff = savez_compressed [(''x'', obj)];
          flattened_bytes = b64encode buff
      in data(''npz_file_bytes'' \<mapsto> flattened_bytes))"

definition restore :: "npz_reader \<Rightarrow> (string \<rightharpoonup> string) \<Rightarrow> error + ndarray" where
  "restore np_load obj =
     (case obj ''npz_file_bytes'' of
        None \<Rightarrow> Inl (KeyError ''npz_file_bytes'')
      | Some payload \<Rightarrow>
          bind_err (b64decode payload) (\<lambda>binary.
          bind_err (np_load binary) (\<lambda>fh.
          case fh ''x'' of
            None \<Rightarrow> Inl (KeyError ''x'')
          | Some array \<Rightarrow> Inr array)))"

section \<open>The object after construction\<close>

text \<open>
  What \<open>__init__\<close> leaves besides the parameters: a covariance estimator without
  statistics, an empty model, the flag unset and no data producer.
\<close>

definition new_tica :: "params \<Rightarrow> tica" where
  "new_tica p = \<lparr> prm = p,
                  covar = \<lparr> c_mean = [], c_cov = [], c_cov_tau = [] \<rparr>,
                  model = \<lparr> m_mean = None, m_cov = None, m_cov_tau = None, m_cumvar = None,
                            m_eigenvalues = None, m_eigenvectors = None \<rparr>,
                  estimated = False, data_producer = None \<rparr>"

section \<open>The statements of the specification, as definitions\<close>

text \<open>
  The dimension policy in the words of the specification: (1) a fixed \<open>dim\<close> on an
  estimator that is not yet diagonalized is returned as declared; (2) a diagonalized
  estimator returns the number of eigenvalues, cut by the variance threshold when
  \<open>var_cutoff < 1\<close>; (3) an estimator that is not diagonalized with
  \<open>var_cutoff = 1\<close> returns the input dimension; (4) anything else fails.
\<close>

definition dimension_spec :: "eigensolver \<Rightarrow> tica \<Rightarrow> error + (int \<times> tica)" where
  "dimension_spec eig_corr t =
     (if dim (prm t) > - 1 \<and> \<not> estimated t then Inr (dim (prm t), t)
      else if estimated t then
        bind_err (eigenvalues eig_corr t) (\<lambda>(ev, t1).
          if var_cutoff (prm t1) < 1 then
            bind_err (cumvar eig_corr t1) (\<lambda>(cv, t2).
              Inr (min (int (length ev)) (int (searchsorted cv (var_cutoff (prm t2))) + 1), t2))
          else Inr (int (length ev), t1))
      else if var_cutoff (prm t) = 1 then
        (case data_producer t of
           None \<Rightarrow> Inl (AttributeError ''data_producer'')
         | Some n \<Rightarrow> Inr (n, t))
      else Inl (RuntimeError ''Requested dimension, but the dimension depends on the cumulative variance and the transformer has not yet been estimated. Call estimate() before.''))"

text \<open>
  Entry \<open>j\<close> of the projection of the mean-centred row \<open>x\<close> onto the eigenvectors:
  \<open>((x - mean) V)[j]\<close>.
\<close>

definition projection_spec :: "vec \<Rightarrow> matrix \<Rightarrow> vec \<Rightarrow> nat \<Rightarrow> real" where
  "projection_spec mu V x j = (\<Sum>k\<leftarrow>[0..<length mu]. (x ! k - mu ! k) * V ! k ! j)"

text \<open>
  The cumulative variance in the words of the specification: entry \<open>k\<close> is the sum of
  the squared magnitudes of the eigenvalues up to \<open>k\<close>, divided by the sum over all.
\<close>

definition cumvar_spec :: "vec \<Rightarrow> real list" where
  "cumvar_spec ev =
     map (\<lambda>k. (\<Sum>i\<leftarrow>[0..<Suc k]. \<bar>ev ! i\<bar> ^ 2) / (\<Sum>i\<leftarrow>[0..<length ev]. \<bar>ev ! i\<bar> ^ 2))
         [0..<length ev]"

text \<open>
  The composed transform of the equilibrium-corrected estimator in the words of the
  specification: entry \<open>j\<close> of \<open>x\<close> times the projection matrix, plus entry \<open>j\<close> of the
  offset. \<open>tr_or_error\<close> and \<open>tr_c_or_error\<close> read the stored projection matrix and
  the stored offset.
\<close>

definition tr_or_error :: "eq_tica \<Rightarrow> error + npmatrix" where
  "tr_or_error t = (case tr t of None \<Rightarrow> Inl (AttributeError ''_tr'') | Some P \<Rightarrow> Inr P)"

definition tr_c_or_error :: "eq_tica \<Rightarrow> error + npfloat list" where
  "tr_c_or_error t = (case tr_c t of None \<Rightarrow> Inl (AttributeError ''_tr_c'') | Some c \<Rightarrow> Inr c)"

definition affine_spec :: "npmatrix \<Rightarrow> npfloat list \<Rightarrow> vec \<Rightarrow> nat \<Rightarrow> npfloat" where
  "affine_spec P c x j =
     np_add (foldl np_add (Fin 0) (map (\<lambda>k. np_mul (Fin (x ! k)) (P ! k ! j)) [0..<length P])) (c ! j)"

text \<open>
  The regularized timescale of the commute map in the words of the specification, over
  the real numbers: \<open>0.5 t tanh(pi ((t - lag) / lag) + 1)\<close> with
  \<open>t = -lag / ln |lambda|\<close>.
\<close>

definition commute_rt_spec :: "int \<Rightarrow> real \<Rightarrow> real" where
  "commute_rt_spec lg l =
     (let ti = - real_of_int lg / ln \<bar>l\<bar>
      in (1 / 2) * ti * tanh (pi * ((ti - real_of_int lg) / real_of_int lg) + 1))"

section \<open>Example inputs\<close>

text \<open>
  A two-dimensional example. The statistics are a mean, the identity as covariance and a
  diagonal time-lagged covariance; for these the generalized eigenproblem is solved by
  the diagonal of the lagged covariance and the unit vectors, which is what
  \<open>diagonal_solver\<close> returns. \<open>example_fitted\<close> is the estimator after a
  \<open>partial_fit\<close>, \<open>example_estimated\<close> after the diagonalization.
\<close>

definition example_params :: "int \<Rightarrow> real \<Rightarrow> bool \<Rightarrow> bool \<Rightarrow> params" where
  "example_params d vc km cm =
     \<lparr> lag = 2, dim = d, var_cutoff = vc, kinetic_map = km, commute_map = cm,
       epsilon = 1 / 1000000, remove_mean = True, reversible = True, stride = 1, skip = 0 \<rparr>"

definition example_statistics :: covar_est where
  "example_statistics = \<lparr> c_mean = [1, 2], c_cov = [[1, 0], [0, 1]],
                          c_cov_tau = [[1 / 2, 0], [0, 1 / 4]] \<rparr>"

definition example_accumulator :: accumulator where
  "example_accumulator c X = Inr example_statistics"

definition diagonal_solver :: eigensolver where
  "diagonal_solver C0 Ct eps = Inr (map (\<lambda>i. Ct ! i ! i) [0..<length Ct], C0)"

definition failing_solver :: eigensolver where
  "failing_solver C0 Ct eps = Inl (ValueError ''not called'')"

definition example_source :: source where
  "example_source = \<lparr> src_dimension = 2, src_data = [[[1, 2], [3, 4]]] \<rparr>"

definition example_fitted :: "params \<Rightarrow> tica" where
  "example_fitted p =
     \<lparr> prm = p, covar = example_statistics,
       model = \<lparr> m_mean = Some [1, 2], m_cov = Some [[1, 0], [0, 1]],
                 m_cov_tau = Some [[1 / 2, 0], [0, 1 / 4]], m_cumvar = None,
                 m_eigenvalues = None, m_eigenvectors = None \<rparr>,
       estimated = False, data_producer = None \<rparr>"

definition example_estimated :: "params \<Rightarrow> tica" where
  "example_estimated p =
     \<lparr> prm = p, covar = example_statistics,
       model = \<lparr> m_mean = Some [1, 2], m_cov = Some [[1, 0], [0, 1]],
                 m_cov_tau = Some [[1 / 2, 0], [0, 1 / 4]],
                 m_cumvar = Some [Fin (4 / 5), Fin 1],
                 m_eigenvalues = Some [1 / 2, 1 / 4],
                 m_eigenvectors = Some [[1, 0], [0, 1]] \<rparr>,
       estimated = True, data_producer = None \<rparr>"

text \<open>A diagonalized estimator whose first eigenvalue is exactly one.\<close>

definition unit_eigenvalue_tica :: tica where
  "unit_eigenvalue_tica =
     \<lparr> prm = example_params (- 1) 1 False False,
       covar = \<lparr> c_mean = [1, 2], c_cov = [[1, 0], [0, 1]], c_cov_tau = [[1, 0], [0, 1 / 2]] \<rparr>,
       model = \<lparr> m_mean = Some [1, 2], m_cov = Some [[1, 0], [0, 1]],
                 m_cov_tau = Some [[1, 0], [0, 1 / 2]],
                 m_cumvar = Some [Fin (4 / 5), Fin 1],
                 m_eigenvalues = Some [1, 1 / 2],
                 m_eigenvectors = Some [[1, 0], [0, 1]] \<rparr>,
       estimated = True, data_producer = None \<rparr>"

text \<open>
  A fitted estimator whose lagged covariance is zero, and what its diagonalization
  leaves; a diagonalized estimator with the commute map whose second eigenvalue is
  1/16.
\<close>

definition zero_lag_fitted :: tica where
  "zero_lag_fitted =
     \<lparr> prm = example_params (- 1) (95 / 100) True False,
       covar = \<lparr> c_mean = [0, 0], c_cov = [[1, 0], [0, 1]], c_cov_tau = [[0, 0], [0, 0]] \<rparr>,
       model = \<lparr> m_mean = Some [0, 0], m_cov = Some [[1, 0], [0, 1]],
                 m_cov_tau = Some [[0, 0], [0, 0]], m_cumvar = None,
                 m_eigenvalues = None, m_eigenvectors = None \<rparr>,
       estimated = False, data_producer = None \<rparr>"

definition small_eigenvalue_tica :: tica where
  "small_eigenvalue_tica =
     \<lparr> prm = example_params (- 1) 1 False True,
       covar = \<lparr> c_mean = [1, 2], c_cov = [[1, 0], [0, 1]], c_cov_tau = [[1 / 2, 0], [0, 1 / 16]] \<rparr>,
       model = \<lparr> m_mean = Some [1, 2], m_cov = Some [[1, 0], [0, 1]],
                 m_cov_tau = Some [[1 / 2, 0], [0, 1 / 16]],
                 m_cumvar = Some [Fin (64 / 65), Fin 1],
                 m_eigenvalues = Some [1 / 2, 1 / 16],
                 m_eigenvectors = Some [[1, 0], [0, 1]] \<rparr>,
       estimated = True, data_producer = None \<rparr>"

definition zero_lag_estimated :: tica where
  "zero_lag_estimated =
     zero_lag_fitted\<lparr> model := (model zero_lag_fitted)\<lparr> m_cumvar := Some [NaN, NaN],
                              m_eigenvalues := Some [0, 0],
                              m_eigenvectors := Some [[1, 0], [0, 1]] \<rparr>,
                      estimated := True \<rparr>"

text \<open>
  An eigensolver for \<open>scipy.linalg.eigh\<close> on diagonal matrices: the diagonal and the
  unit vectors; like scipy it refuses an array with an infinity or a NaN.
\<close>

fun is_finite :: "npfloat \<Rightarrow> bool" where
  "is_finite (Fin a) = True"
| "is_finite _ = False"

fun fin_value :: "npfloat \<Rightarrow> real" where
  "fin_value (Fin a) = a"
| "fin_value _ = 0"

definition identity_matrix :: "nat \<Rightarrow> matrix" where
  "identity_matrix n = map (\<lambda>i. map (\<lambda>j. if i = j then 1 else 0) [0..<n]) [0..<n]"

definition diagonal_eigh :: eigh_solver where
  "diagonal_eigh M =
     (if list_all (list_all is_finite) M
      then Inr (map (\<lambda>i. fin_value (M ! i ! i)) [0..<length M], identity_matrix (length M))
      else Inl (ValueError ''array must not contain infs or NaNs''))"

text \<open>
  A one-dimensional example for the equilibrium-corrected estimator: the Koopman
  estimation hands over a diagonal operator, the identity as change of basis and the
  reference mean 3; the weighted covariance estimation gives mean 0 and covariance 1.
  \<open>example_eq_estimated\<close> is the estimator after \<open>_estimate\<close>.
\<close>

definition example_koopman :: koopman where
  "example_koopman = \<lparr> k_K = [[1 / 2, 0], [0, 1]], k_R = [[1]], k_mean = [3], k_weights = [[1, 1]] \<rparr>"

definition example_koopman_estimator :: koopman_estimator where
  "example_koopman_estimator p src = Inr example_koopman"

definition example_weighted_statistics :: covar_est where
  "example_weighted_statistics = \<lparr> c_mean = [0], c_cov = [[1]], c_cov_tau = [] \<rparr>"

definition example_weighted_accumulator :: weighted_accumulator where
  "example_weighted_accumulator p k src = Inr example_weighted_statistics"

definition example_source_1d :: source where
  "example_source_1d = \<lparr> src_dimension = 1, src_data = [[[2], [4]]] \<rparr>"

definition new_eq_tica :: "params \<Rightarrow> eq_tica" where
  "new_eq_tica p = \<lparr> prm = p,
                     covar = \<lparr> c_mean = [], c_cov = [], c_cov_tau = [] \<rparr>,
                     model = \<lparr> m_mean = None, m_cov = None, m_cov_tau = None, m_cumvar = None,
                               m_eigenvalues = None, m_eigenvectors = None \<rparr>,
                     estimated = False, data_producer = None, tr = None, tr_c = None \<rparr>"

definition example_eq_estimated :: "params \<Rightarrow> eq_tica" where
  "example_eq_estimated p =
     \<lparr> prm = p, covar = example_weighted_statistics,
       model = \<lparr> m_mean = Some [0], m_cov = None, m_cov_tau = None,
                 m_cumvar = Some [Fin (4 / 5), Fin 1],
                 m_eigenvalues = Some [1, 1 / 2], m_eigenvectors = None \<rparr>,
       estimated = True, data_producer = None,
       tr = Some [[Fin 0, Fin 1]], tr_c = Some [Fin 1, Fin (- 3)] \<rparr>"

text \<open>
  An array of three bytes, and a writer and reader for one-dimensional byte arrays that
  keep the buffer as it is.
\<close>

definition example_array :: ndarray where
  "example_array = \<lparr> nd_shape = [3], nd_dtype = ''|u1'',
                      nd_buffer = [char_of (1::nat), char_of (2::nat), char_of (3::nat)] \<rparr>"

definition raw_writer :: npz_writer where
  "raw_writer kw = concat (map (\<lambda>(name, a). nd_buffer a) kw)"

definition raw_reader :: npz_reader where
  "raw_reader b = Inr [''x'' \<mapsto> \<lparr> nd_shape = [length b], nd_dtype = ''|u1'', nd_buffer = b \<rparr>]"

section \<open>Construction\<close>

text \<open>
  Claim C8. Construction fails exactly when the options conflict: \<open>dim\<close> is set
  (differs from -1) together with a \<open>var_cutoff\<close> that differs from the default 0.95,
  or both scaling modes are requested, or a scaling mode is requested with
  \<open>reversible = False\<close>. The first two conflicts raise \<open>ValueError\<close>, the third,
  reached only when the first two are absent, raises \<open>NotImplementedError\<close>; in every
  other case the constructor returns the stored parameters.
\<close>

theorem init_fails_iff_conflict:
  "(isl (init l d vc km cm eps st rm sk rv)
      \<longleftrightarrow> (d \<noteq> - 1 \<and> vc \<noteq> default_var_cutoff) \<or> (km \<and> cm) \<or> ((km \<or> cm) \<and> \<not> rv))
   \<and> ((d \<noteq> - 1 \<and> vc \<noteq> default_var_cutoff) \<or> (km \<and> cm)
        \<longleftrightarrow> (\<exists>msg. init l d vc km cm eps st rm sk rv = Inl (ValueError msg)))
   \<and> (\<not> (d \<noteq> - 1 \<and> vc \<noteq> default_var_cutoff) \<and> \<not> (km \<and> cm) \<and> (km \<or> cm) \<and> \<not> rv
        \<longleftrightarrow> (\<exists>msg. init l d vc km cm eps st rm sk rv = Inl (NotImplementedError msg)))"
  by (auto simp: init_def)

theorem init_fails_iff_conflict_witness:
  "isl (init 1 5 (1 / 2) False False (1 / 1000000) 1 True 0 True)
   \<and> isl (init 1 (- 1) (95 / 100) True True (1 / 1000000) 1 True 0 True)
   \<and> isl (init 1 (- 1) (95 / 100) True False (1 / 1000000) 1 True 0 False)
   \<and> \<not> isl (init 1 (- 1) (95 / 100) True False (1 / 1000000) 1 True 0 True)
   \<and> \<not> isl (init 1 5 (95 / 100) True False (1 / 1000000) 1 True 0 True)"
  using init_fails_iff_conflict [of 1 5 "1 / 2" False False "1 / 1000000" 1 True 0 True]
        init_fails_iff_conflict [of 1 "- 1" "95 / 100" True True "1 / 1000000" 1 True 0 True]
        init_fails_iff_conflict [of 1 "- 1" "95 / 100" True False "1 / 1000000" 1 True 0 False]
        init_fails_iff_conflict [of 1 "- 1" "95 / 100" True False "1 / 1000000" 1 True 0 True]
        init_fails_iff_conflict [of 1 5 "95 / 100" True False "1 / 1000000" 1 True 0 True]
  by (simp add: default_var_cutoff_def)

section \<open>Helper lemmas\<close>

subsection \<open>Running sums\<close>

lemma length_cumsum_from: "length (cumsum_from a xs) = length xs"
  by (induction xs arbitrary: a) auto

lemma nth_cumsum_from:
  "k < length xs \<Longrightarrow> cumsum_from a xs ! k = a + sum_list (take (Suc k) xs)"
proof (induction xs arbitrary: a k)
  case Nil
  then show ?case by simp
next
  case (Cons x xs)
  then show ?case by (cases k) (auto simp: add.assoc)
qed

lemma last_cumsum_from_Cons:
  "last (cumsum_from a (x # xs)) = a + x + sum_list xs"
  by (induction xs arbitrary: a x) (auto simp: add.assoc)

lemma last_cumsum_from:
  "xs \<noteq> [] \<Longrightarrow> last (cumsum_from a xs) = a + sum_list xs"
  by (cases xs) (simp_all only: last_cumsum_from_Cons sum_list.Cons add.assoc, simp)

lemma cumsum_from_lower:
  "\<forall>x\<in>set xs. 0 \<le> x \<Longrightarrow> y \<in> set (cumsum_from a xs) \<Longrightarrow> a \<le> y"
proof (induction xs arbitrary: a)
  case Nil
  then show ?case by simp
next
  case (Cons x xs)
  then show ?case by fastforce
qed

lemma sorted_cumsum_from:
  "\<forall>x\<in>set xs. 0 \<le> x \<Longrightarrow> sorted (cumsum_from a xs)"
proof (induction xs arbitrary: a)
  case Nil
  then show ?case by simp
next
  case (Cons x xs)
  then show ?case using cumsum_from_lower[of xs _ "a + x"] by auto
qed

lemma sum_squares_pos:
  "\<exists>l\<in>set ev. l \<noteq> (0::real) \<Longrightarrow> 0 < sum_list (map (\<lambda>l. \<bar>l\<bar> ^ 2) ev)"
proof (induction ev)
  case Nil
  then show ?case by simp
next
  case (Cons a ev)
  have nn: "0 \<le> sum_list (map (\<lambda>l. \<bar>l\<bar> ^ 2) ev)"
    by (rule sum_list_nonneg) auto
  show ?case
  proof (cases "a = 0")
    case True
    with Cons show ?thesis by auto
  next
    case False
    then have "0 < \<bar>a\<bar> ^ 2" by simp
    from this nn have "0 < \<bar>a\<bar> ^ 2 + sum_list (map (\<lambda>l. \<bar>l\<bar> ^ 2) ev)"
      by (rule add_pos_nonneg)
    then show ?thesis by simp
  qed
qed

lemma compute_cumvar_regular:
  assumes nz: "\<exists>l\<in>set ev. l \<noteq> 0"
  shows "\<exists>rs. compute_cumvar ev = Inr (map Fin rs) \<and> length rs = length ev
           \<and> (\<forall>k<length ev. rs ! k = sum_list (take (Suc k) (map (\<lambda>l. \<bar>l\<bar> ^ 2) ev))
                                     / sum_list (map (\<lambda>l. \<bar>l\<bar> ^ 2) ev))
           \<and> sorted rs \<and> last rs = 1"
proof -
  let ?sq = "map (\<lambda>l. \<bar>l\<bar> ^ 2) ev"
  let ?cs = "cumsum ?sq"
  let ?tot = "sum_list ?sq"
  from nz have ne: "ev \<noteq> []" by auto
  have pos: "0 < ?tot" using nz by (rule sum_squares_pos)
  have len: "length ?cs = length ev" by (simp add: cumsum_def length_cumsum_from)
  have csne: "?cs \<noteq> []" using ne len by (metis length_0_conv)
  have lst: "last ?cs = ?tot" using ne by (simp add: cumsum_def last_cumsum_from)
  have srt: "sorted ?cs" unfolding cumsum_def by (rule sorted_cumsum_from) auto
  let ?rs = "map (\<lambda>c. c / ?tot) ?cs"
  have cc: "compute_cumvar ev = Inr (map Fin ?rs)"
    using csne lst pos by (simp add: compute_cumvar_def Let_def comp_def)
  have nth: "\<forall>k<length ev. ?rs ! k = sum_list (take (Suc k) ?sq) / ?tot"
    using len by (simp add: cumsum_def nth_cumsum_from)
  have mono: "sorted ?rs"
    using srt pos by (auto simp: sorted_iff_nth_mono divide_right_mono)
  have l1: "last ?rs = 1" using csne lst pos by (simp add: last_map)
  show ?thesis using cc len nth mono l1 by (intro exI[of _ ?rs]) simp
qed

subsection \<open>Sequencing and the lazy accessors\<close>

lemma bind_err_Inr [simp]: "bind_err (Inr x) f = f x"
  by (simp add: bind_err_def)

lemma bind_err_Inl [simp]: "bind_err (Inl e) f = Inl e"
  by (simp add: bind_err_def)

lemma bind_err_eq_Inr:
  "bind_err r f = Inr y \<longleftrightarrow> (\<exists>x. r = Inr x \<and> f x = Inr y)"
  by (cases r) auto

lemma lazy_estimation_estimated: "estimated t \<Longrightarrow> lazy_estimation s t = Inr t"
  by (simp add: lazy_estimation_def)

lemma diagonalize_Inr:
  assumes "diagonalize s t = Inr t1"
  shows "\<exists>ct ev evec cv. m_cov_tau (model t) = Some ct
           \<and> s (c_cov (covar t)) ct (epsilon (prm t)) = Inr (ev, evec)
           \<and> compute_cumvar ev = Inr cv
           \<and> t1 = t\<lparr> model := (model t)\<lparr> m_cumvar := Some cv, m_eigenvalues := Some ev,
                                          m_eigenvectors := Some evec \<rparr>,
                     estimated := True \<rparr>"
  using assms
  by (auto simp: diagonalize_def bind_err_eq_Inr split: option.splits)

lemma diagonalize_estimated: "diagonalize s t = Inr t1 \<Longrightarrow> estimated t1"
  by (drule diagonalize_Inr) auto

lemma lazy_estimation_Inr: "lazy_estimation s t = Inr t1 \<Longrightarrow> estimated t1"
  by (auto simp: lazy_estimation_def diagonalize_estimated split: if_splits)

lemma eigenvalues_estimated:
  "estimated t \<Longrightarrow> m_eigenvalues (model t) = Some ev \<Longrightarrow> eigenvalues s t = Inr (ev, t)"
  by (simp add: eigenvalues_def lazy_estimation_estimated get_attr_def)

lemma eigenvectors_estimated:
  "estimated t \<Longrightarrow> m_eigenvectors (model t) = Some V \<Longrightarrow> eigenvectors s t = Inr (V, t)"
  by (simp add: eigenvectors_def lazy_estimation_estimated get_attr_def)

lemma cumvar_estimated:
  "estimated t \<Longrightarrow> m_cumvar (model t) = Some cv \<Longrightarrow> cumvar s t = Inr (cv, t)"
  by (simp add: cumvar_def lazy_estimation_estimated get_attr_def)

lemma timescales_estimated:
  "estimated t \<Longrightarrow> m_eigenvalues (model t) = Some ev
     \<Longrightarrow> timescales s t = Inr (map (timescale_of (lag (prm t))) ev, t)"
  by (simp add: timescales_def eigenvalues_estimated)

lemma get_attr_Inr: "get_attr n a t = Inr (v, t1) \<longleftrightarrow> a = Some v \<and> t1 = t"
  by (auto simp: get_attr_def split: option.splits)

lemma eigenvalues_Inr:
  "eigenvalues s t = Inr (ev, t1) \<longleftrightarrow> lazy_estimation s t = Inr t1 \<and> m_eigenvalues (model t1) = Some ev"
  by (auto simp: eigenvalues_def bind_err_eq_Inr get_attr_Inr)

lemma eigenvectors_Inr:
  "eigenvectors s t = Inr (V, t1) \<longleftrightarrow> lazy_estimation s t = Inr t1 \<and> m_eigenvectors (model t1) = Some V"
  by (auto simp: eigenvectors_def bind_err_eq_Inr get_attr_Inr)

lemma cumvar_Inr:
  "cumvar s t = Inr (cv, t1) \<longleftrightarrow> lazy_estimation s t = Inr t1 \<and> m_cumvar (model t1) = Some cv"
  by (auto simp: cumvar_def bind_err_eq_Inr get_attr_Inr)

lemma timescales_Inr:
  "timescales s t = Inr (ts, t1) \<longleftrightarrow>
     (\<exists>ev. lazy_estimation s t = Inr t1 \<and> m_eigenvalues (model t1) = Some ev
            \<and> ts = map (timescale_of (lag (prm t1))) ev)"
  by (auto simp: timescales_def bind_err_eq_Inr eigenvalues_Inr)

subsection \<open>The example run\<close>

lemmas example_defs = new_tica_def example_params_def example_statistics_def
  example_accumulator_def diagonal_solver_def failing_solver_def example_source_def
  example_fitted_def example_estimated_def

lemma upt_2: "[0..<2] = [0, 1]"
  by (simp add: numeral_2_eq_2)

lemma example_partial_fit:
  "dim p \<le> 2 \<Longrightarrow> partial_fit example_accumulator (new_tica p) example_source = Inr (example_fitted p)"
  by (simp add: partial_fit_def example_defs copy_statistics_def)

lemma example_compute_cumvar: "compute_cumvar [1 / 2, 1 / 4] = Inr [Fin (4 / 5), Fin 1]"
  by (simp add: compute_cumvar_def cumsum_def power2_eq_square)

lemma example_diagonalize:
  "diagonalize diagonal_solver (example_fitted p) = Inr (example_estimated p)"
  by (simp add: diagonalize_def example_defs upt_2 example_compute_cumvar)

lemma example_estimate:
  "dim p \<le> 2 \<Longrightarrow> estimate example_accumulator diagonal_solver (new_tica p) example_source
     = Inr (example_estimated p)"
  using example_diagonalize[of p]
  by (simp add: estimate_def example_defs copy_statistics_def)

section \<open>The dimension policy\<close>

text \<open>
  Claim C2, as the specification states it, fails: \<open>dimension()\<close> starts with
  \<open>if self.dim > -1: return self.dim\<close>, so a fixed \<open>dim\<close> is returned after the
  diagonalization too. Constructed with \<open>dim = 1\<close> and estimated on the
  two-dimensional example, the estimator has two eigenvalues and \<open>var_cutoff = 1\<close>;
  the code returns 1, the stated policy gives 2.
\<close>

theorem dimension_spec_counterexample:
  "init 2 1 (95 / 100) True False (1 / 1000000) 1 True 0 True = Inr (example_params 1 1 True False)
   \<and> estimate example_accumulator diagonal_solver (new_tica (example_params 1 1 True False)) example_source
       = Inr (example_estimated (example_params 1 1 True False))
   \<and> estimated (example_estimated (example_params 1 1 True False))
   \<and> dimension diagonal_solver (example_estimated (example_params 1 1 True False))
       = Inr (1, example_estimated (example_params 1 1 True False))
   \<and> dimension_spec diagonal_solver (example_estimated (example_params 1 1 True False))
       = Inr (2, example_estimated (example_params 1 1 True False))"
proof -
  let ?p = "example_params 1 1 True False"
  have i: "init 2 1 (95 / 100) True False (1 / 1000000) 1 True 0 True = Inr ?p"
    by (simp add: init_def example_params_def default_var_cutoff_def)
  have e: "estimate example_accumulator diagonal_solver (new_tica ?p) example_source
             = Inr (example_estimated ?p)"
    by (rule example_estimate) (simp add: example_params_def)
  have est: "estimated (example_estimated ?p)" by (simp add: example_estimated_def)
  have d: "dimension diagonal_solver (example_estimated ?p) = Inr (1, example_estimated ?p)"
    by (simp add: dimension_def example_estimated_def example_params_def)
  have ev: "eigenvalues diagonal_solver (example_estimated ?p) = Inr ([1 / 2, 1 / 4], example_estimated ?p)"
    by (rule eigenvalues_estimated) (simp_all add: example_estimated_def)
  have ds: "dimension_spec diagonal_solver (example_estimated ?p) = Inr (2, example_estimated ?p)"
    using est by (simp add: dimension_spec_def ev) (simp add: example_estimated_def example_params_def)
  from i e est d ds show ?thesis by simp
qed

text \<open>
  Claim C2, amended. (1) If \<open>dim > -1\<close>, \<open>dimension()\<close> returns \<open>dim\<close>, diagonalized
  or not. With \<open>dim = -1\<close>: (2) a diagonalized estimator returns
  \<open>min(len(eigenvalues), searchsorted(cumvar, var_cutoff) + 1)\<close> when
  \<open>var_cutoff < 1\<close> and \<open>len(eigenvalues)\<close> otherwise; (3) an estimator that is not
  diagonalized with \<open>var_cutoff = 1\<close> returns the input dimension; (4) otherwise the
  call fails with \<open>RuntimeError\<close>. The state is unchanged in every case.
\<close>

theorem dimension_priority_amended:
  "(dim (prm t) > - 1 \<longrightarrow> dimension s t = Inr (dim (prm t), t))
   \<and> (dim (prm t) = - 1 \<and> estimated t \<and> m_eigenvalues (model t) = Some ev
        \<and> m_cumvar (model t) = Some cv \<longrightarrow>
        dimension s t =
          Inr (if var_cutoff (prm t) < 1
               then min (int (length ev)) (int (searchsorted cv (var_cutoff (prm t))) + 1)
               else int (length ev), t))
   \<and> (dim (prm t) = - 1 \<and> \<not> estimated t \<and> var_cutoff (prm t) = 1 \<and> data_producer t = Some n \<longrightarrow>
        dimension s t = Inr (n, t))
   \<and> (dim (prm t) = - 1 \<and> \<not> estimated t \<and> var_cutoff (prm t) \<noteq> 1 \<longrightarrow>
        (\<exists>msg. dimension s t = Inl (RuntimeError msg)))"
  by (auto simp: dimension_def eigenvalues_estimated cumvar_estimated)

theorem dimension_priority_amended_witness:
  "dimension diagonal_solver (new_tica (example_params 1 1 True False))
     = Inr (1, new_tica (example_params 1 1 True False))
   \<and> dimension diagonal_solver (example_estimated (example_params 1 1 True False))
     = Inr (1, example_estimated (example_params 1 1 True False))
   \<and> dimension diagonal_solver (example_estimated (example_params (- 1) (95 / 100) True False))
     = Inr (2, example_estimated (example_params (- 1) (95 / 100) True False))
   \<and> dimension diagonal_solver (example_estimated (example_params (- 1) (1 / 2) True False))
     = Inr (1, example_estimated (example_params (- 1) (1 / 2) True False))
   \<and> dimension diagonal_solver (example_estimated (example_params (- 1) 1 True False))
     = Inr (2, example_estimated (example_params (- 1) 1 True False))
   \<and> dimension diagonal_solver ((new_tica (example_params (- 1) 1 True False))\<lparr> data_producer := Some 2 \<rparr>)
     = Inr (2, (new_tica (example_params (- 1) 1 True False))\<lparr> data_producer := Some 2 \<rparr>)
   \<and> (\<exists>msg. dimension diagonal_solver (new_tica (example_params (- 1) (95 / 100) True False))
         = Inl (RuntimeError msg))"
  using dimension_priority_amended[where t = "new_tica (example_params 1 1 True False)"
       and s = diagonal_solver]
    dimension_priority_amended[where t = "example_estimated (example_params 1 1 True False)"
       and s = diagonal_solver]
    dimension_priority_amended[where t = "example_estimated (example_params (- 1) (95 / 100) True False)"
       and ev = "[1 / 2, 1 / 4]" and cv = "[Fin (4 / 5), Fin 1]" and s = diagonal_solver]
    dimension_priority_amended[where t = "example_estimated (example_params (- 1) (1 / 2) True False)"
       and ev = "[1 / 2, 1 / 4]" and cv = "[Fin (4 / 5), Fin 1]" and s = diagonal_solver]
    dimension_priority_amended[where t = "example_estimated (example_params (- 1) 1 True False)"
       and ev = "[1 / 2, 1 / 4]" and cv = "[Fin (4 / 5), Fin 1]" and s = diagonal_solver]
    dimension_priority_amended[where t = "(new_tica (example_params (- 1) 1 True False))\<lparr> data_producer := Some 2 \<rparr>"
       and n = 2 and s = diagonal_solver]
    dimension_priority_amended[where t = "new_tica (example_params (- 1) (95 / 100) True False)"
       and s = diagonal_solver]
  by (simp add: example_defs searchsorted_def)

section \<open>Timescales\<close>

text \<open>
  Claim C4. On a diagonalized estimator \<open>timescales\<close> returns, without raising, one
  entry per eigenvalue; entry \<open>i\<close> is \<open>-lag / ln |eigenvalues[i]|\<close> whenever the
  eigenvalue is neither zero nor of magnitude one; for an eigenvalue of magnitude
  exactly one and a lag other than zero the entry is an infinity, the negative one for
  a positive lag.
\<close>

theorem timescales_formula:
  assumes "estimated t" and "m_eigenvalues (model t) = Some ev"
  shows "timescales s t = Inr (map (timescale_of (lag (prm t))) ev, t)
         \<and> (\<forall>i<length ev. \<bar>ev ! i\<bar> \<noteq> 1 \<and> ev ! i \<noteq> 0 \<longrightarrow>
               timescale_of (lag (prm t)) (ev ! i) = Fin (- real_of_int (lag (prm t)) / ln \<bar>ev ! i\<bar>))
         \<and> (\<forall>i<length ev. \<bar>ev ! i\<bar> = 1 \<and> lag (prm t) \<noteq> 0 \<longrightarrow>
               is_inf (timescale_of (lag (prm t)) (ev ! i)))
         \<and> (\<forall>i<length ev. \<bar>ev ! i\<bar> = 1 \<and> 0 < lag (prm t) \<longrightarrow>
               timescale_of (lag (prm t)) (ev ! i) = NInf)"
  using assms by (auto simp: timescales_estimated timescale_of_def)

theorem timescales_formula_witness:
  "estimated unit_eigenvalue_tica
   \<and> m_eigenvalues (model unit_eigenvalue_tica) = Some [1, 1 / 2]
   \<and> timescales failing_solver unit_eigenvalue_tica
        = Inr ([NInf, Fin (- 2 / ln (1 / 2))], unit_eigenvalue_tica)"
  using timescales_formula[where t = unit_eigenvalue_tica and ev = "[1, 1 / 2]" and s = failing_solver]
  by (simp add: unit_eigenvalue_tica_def example_params_def timescale_of_def)

section \<open>The eager dimension check\<close>

text \<open>
  The base estimator. \<open>TICA.partial_fit\<close> and \<open>TICA._estimate\<close> fail with the
  dimension error when \<open>dim\<close> exceeds the dimension of the input, whatever the
  collaborators would do: nothing is accumulated or diagonalized before. When \<open>dim\<close>
  does not exceed it, the check raises nothing: the calls are the accumulation followed
  by the copy of the statistics (and, for \<open>_estimate\<close>, the diagonalization), and fail
  only where these fail.
\<close>

lemma dimension_check_eager:
  "(src_dimension X < dim (prm t) \<longrightarrow>
      partial_fit acc t X = Inl dim_error \<and> estimate acc s t X = Inl dim_error)
   \<and> (dim (prm t) \<le> src_dimension X \<longrightarrow>
        partial_fit acc t X =
          bind_err (acc (covar t) X)
            (\<lambda>c. Inr (t\<lparr> covar := c, model := copy_statistics c (model t), estimated := False \<rparr>))
        \<and> estimate acc s t X =
          bind_err (acc (covar t) X)
            (\<lambda>c. diagonalize s (t\<lparr> covar := c, model := copy_statistics c (model t) \<rparr>)))"
  by (auto simp: partial_fit_def estimate_def Let_def)

lemma dimension_check_eager_example:
  "partial_fit example_accumulator (new_tica (example_params 3 1 True False)) example_source
     = Inl dim_error
   \<and> estimate example_accumulator diagonal_solver (new_tica (example_params 3 1 True False)) example_source
     = Inl dim_error
   \<and> partial_fit example_accumulator (new_tica (example_params 2 1 True False)) example_source
     = Inr (example_fitted (example_params 2 1 True False))
   \<and> estimate example_accumulator diagonal_solver (new_tica (example_params 2 1 True False)) example_source
     = Inr (example_estimated (example_params 2 1 True False))"
  using dimension_check_eager[where t = "new_tica (example_params 3 1 True False)"
      and X = example_source and acc = example_accumulator and s = diagonal_solver]
    dimension_check_eager[where t = "new_tica (example_params 2 1 True False)"
      and X = example_source and acc = example_accumulator and s = diagonal_solver]
    example_diagonalize[of "example_params 2 1 True False"]
  by (simp add: example_defs copy_statistics_def)

section \<open>Lazy diagonalization\<close>

text \<open>
  Claim C7. A successful \<open>_diagonalize\<close> has called the eigensolver on the
  covariance, the lagged covariance and epsilon, computed \<open>cumvar\<close> from the
  eigenvalues, stored all three in the model and set the flag. After any access to
  \<open>eigenvalues\<close>, \<open>eigenvectors\<close>, \<open>cumvar\<close> or \<open>timescales\<close> the flag is set, and
  a second access returns the same value and the same state whatever the eigensolver
  is, so the eigensolver is not consulted again. A successful \<open>partial_fit\<close> unsets
  the flag, and the next access diagonalizes.
\<close>

theorem lazy_diagonalization_idempotent:
  "(diagonalize s t = Inr t1 \<longrightarrow>
      (\<exists>ct ev V cv. m_cov_tau (model t) = Some ct
          \<and> s (c_cov (covar t)) ct (epsilon (prm t)) = Inr (ev, V)
          \<and> compute_cumvar ev = Inr cv
          \<and> m_eigenvalues (model t1) = Some ev \<and> m_eigenvectors (model t1) = Some V
          \<and> m_cumvar (model t1) = Some cv \<and> estimated t1))
   \<and> (lazy_estimation s t = Inr t1 \<longrightarrow> estimated t1 \<and> lazy_estimation s' t1 = Inr t1)
   \<and> (eigenvalues s t = Inr (ev, t1) \<longrightarrow> estimated t1 \<and> eigenvalues s' t1 = Inr (ev, t1))
   \<and> (eigenvectors s t = Inr (V, t1) \<longrightarrow> estimated t1 \<and> eigenvectors s' t1 = Inr (V, t1))
   \<and> (cumvar s t = Inr (cv, t1) \<longrightarrow> estimated t1 \<and> cumvar s' t1 = Inr (cv, t1))
   \<and> (timescales s t = Inr (ts, t1) \<longrightarrow> estimated t1 \<and> timescales s' t1 = Inr (ts, t1))
   \<and> (partial_fit acc t X = Inr t2 \<longrightarrow>
        \<not> estimated t2 \<and> lazy_estimation s t2 = diagonalize s t2)"
proof -
  have a: "diagonalize s t = Inr t1 \<longrightarrow>
      (\<exists>ct ev V cv. m_cov_tau (model t) = Some ct
          \<and> s (c_cov (covar t)) ct (epsilon (prm t)) = Inr (ev, V)
          \<and> compute_cumvar ev = Inr cv
          \<and> m_eigenvalues (model t1) = Some ev \<and> m_eigenvectors (model t1) = Some V
          \<and> m_cumvar (model t1) = Some cv \<and> estimated t1)"
    by (auto dest!: diagonalize_Inr)
  have b: "lazy_estimation s t = Inr t1 \<longrightarrow> estimated t1 \<and> lazy_estimation s' t1 = Inr t1"
    by (auto dest: lazy_estimation_Inr simp: lazy_estimation_estimated)
  have c: "eigenvalues s t = Inr (ev, t1) \<longrightarrow> estimated t1 \<and> eigenvalues s' t1 = Inr (ev, t1)"
    by (auto simp: eigenvalues_Inr dest: lazy_estimation_Inr intro: lazy_estimation_estimated)
  have d: "eigenvectors s t = Inr (V, t1) \<longrightarrow> estimated t1 \<and> eigenvectors s' t1 = Inr (V, t1)"
    by (auto simp: eigenvectors_Inr dest: lazy_estimation_Inr intro: lazy_estimation_estimated)
  have e: "cumvar s t = Inr (cv, t1) \<longrightarrow> estimated t1 \<and> cumvar s' t1 = Inr (cv, t1)"
    by (auto simp: cumvar_Inr dest: lazy_estimation_Inr intro: lazy_estimation_estimated)
  have f: "timescales s t = Inr (ts, t1) \<longrightarrow> estimated t1 \<and> timescales s' t1 = Inr (ts, t1)"
    by (auto simp: timescales_Inr dest: lazy_estimation_Inr intro: lazy_estimation_estimated)
  have g: "partial_fit acc t X = Inr t2 \<longrightarrow>
        \<not> estimated t2 \<and> lazy_estimation s t2 = diagonalize s t2"
    by (auto simp: partial_fit_def Let_def bind_err_eq_Inr lazy_estimation_def split: if_splits)
  from a b c d e f g show ?thesis by blast
qed

theorem lazy_diagonalization_idempotent_witness:
  "partial_fit example_accumulator (new_tica (example_params (- 1) 1 True False)) example_source
     = Inr (example_fitted (example_params (- 1) 1 True False))
   \<and> \<not> estimated (example_fitted (example_params (- 1) 1 True False))
   \<and> eigenvalues diagonal_solver (example_fitted (example_params (- 1) 1 True False))
     = Inr ([1 / 2, 1 / 4], example_estimated (example_params (- 1) 1 True False))
   \<and> estimated (example_estimated (example_params (- 1) 1 True False))
   \<and> eigenvalues failing_solver (example_estimated (example_params (- 1) 1 True False))
     = Inr ([1 / 2, 1 / 4], example_estimated (example_params (- 1) 1 True False))
   \<and> eigenvectors diagonal_solver (example_fitted (example_params (- 1) 1 True False))
     = Inr ([[1, 0], [0, 1]], example_estimated (example_params (- 1) 1 True False))
   \<and> eigenvectors failing_solver (example_estimated (example_params (- 1) 1 True False))
     = Inr ([[1, 0], [0, 1]], example_estimated (example_params (- 1) 1 True False))
   \<and> lazy_estimation diagonal_solver (example_fitted (example_params (- 1) 1 True False))
     = diagonalize diagonal_solver (example_fitted (example_params (- 1) 1 True False))"
proof -
  let ?p = "example_params (- 1) 1 True False"
  have pf: "partial_fit example_accumulator (new_tica ?p) example_source = Inr (example_fitted ?p)"
    by (rule example_partial_fit) (simp add: example_params_def)
  have ne: "\<not> estimated (example_fitted ?p)" by (simp add: example_fitted_def)
  have lz: "lazy_estimation diagonal_solver (example_fitted ?p) = Inr (example_estimated ?p)"
    using ne by (simp add: lazy_estimation_def example_diagonalize)
  have ev: "eigenvalues diagonal_solver (example_fitted ?p) = Inr ([1 / 2, 1 / 4], example_estimated ?p)"
    by (simp add: eigenvalues_def lz get_attr_def) (simp add: example_estimated_def)
  have ec: "eigenvectors diagonal_solver (example_fitted ?p) = Inr ([[1, 0], [0, 1]], example_estimated ?p)"
    by (simp add: eigenvectors_def lz get_attr_def) (simp add: example_estimated_def)
  note again = lazy_diagonalization_idempotent[where s = diagonal_solver and s' = failing_solver
        and t = "example_fitted ?p" and ?t1.0 = "example_estimated ?p" and ev = "[1 / 2, 1 / 4]"
        and V = "[[1, 0], [0, 1]]"]
  have ev2: "estimated (example_estimated ?p)
             \<and> eigenvalues failing_solver (example_estimated ?p)
                 = Inr ([1 / 2, 1 / 4], example_estimated ?p)"
    using again ev by blast
  have ec2: "eigenvectors failing_solver (example_estimated ?p)
               = Inr ([[1, 0], [0, 1]], example_estimated ?p)"
    using again ec by blast
  have re: "lazy_estimation diagonal_solver (example_fitted ?p)
              = diagonalize diagonal_solver (example_fitted ?p)"
    using lazy_diagonalization_idempotent[where s = diagonal_solver and t = "new_tica ?p"
        and acc = example_accumulator and X = example_source and ?t2.0 = "example_fitted ?p"] pf
    by blast
  from pf ne ev ec ev2 ec2 re show ?thesis by blast
qed

section \<open>The transform\<close>

lemma py_take_nonneg: "0 \<le> d \<Longrightarrow> py_take d xs = take (nat d) xs"
  by (simp add: py_take_def)

lemma ncols_take_columns:
  assumes "V \<noteq> []" and "list_all (\<lambda>r. length r = n) V" and "0 \<le> d"
  shows "ncols (map (py_take d) V) = min (nat d) n"
  using assms by (cases V) (auto simp: ncols_def py_take_nonneg)

lemma row_times_projection:
  assumes V: "V \<noteq> []" and rows: "list_all (\<lambda>r. length r = n) V" and d: "0 \<le> d"
    and lx: "length x = length mu" and lV: "length V = length mu"
  shows "row_times (map2 (-) x mu) (map (py_take d) V)
           = map (projection_spec mu V x) [0..<min (nat d) n]"
proof -
  have nc: "ncols (map (py_take d) V) = min (nat d) n"
    using V rows d by (rule ncols_take_columns)
  have entry: "(\<Sum>k\<leftarrow>[0..<length V]. map2 (-) x mu ! k * map (py_take d) V ! k ! j)
                 = projection_spec mu V x j" if j: "j < min (nat d) n" for j
  proof -
    have "map (\<lambda>k. map2 (-) x mu ! k * map (py_take d) V ! k ! j) [0..<length V]
            = map (\<lambda>k. (x ! k - mu ! k) * V ! k ! j) [0..<length mu]"
      using lx lV d j by (auto simp: py_take_nonneg)
    then show ?thesis by (simp add: projection_spec_def)
  qed
  show ?thesis
    unfolding row_times_def nc using entry by (simp add: length_map)
qed


lemma sub_rows_aligned:
  "list_all (\<lambda>x. length x = length mu) X \<Longrightarrow> sub_rows X mu = Inr (map (\<lambda>x. map2 (-) x mu) X)"
  by (simp add: sub_rows_def)

lemma dot_projection:
  assumes X: "list_all (\<lambda>x. length x = length mu) X"
    and V: "V \<noteq> []" and rows: "list_all (\<lambda>r. length r = n) V" and d: "0 \<le> d"
    and lV: "length V = length mu"
  shows "dot_mm (map (\<lambda>x. map2 (-) x mu) X) (map (py_take d) V)
           = Inr (map (\<lambda>x. map (projection_spec mu V x) [0..<min (nat d) n]) X)"
proof -
  have ok: "list_all (\<lambda>r. length r = length (map (py_take d) V)) (map (\<lambda>x. map2 (-) x mu) X)"
    using X lV by (auto simp: list_all_iff)
  have each: "row_times (map2 (-) x mu) (map (py_take d) V)
                = map (projection_spec mu V x) [0..<min (nat d) n]" if "x \<in> set X" for x
  proof -
    from that X have "length x = length mu" by (auto simp: list_all_iff)
    with V rows d lV show ?thesis by (intro row_times_projection)
  qed
  have "map (\<lambda>r. row_times r (map (py_take d) V)) (map (\<lambda>x. map2 (-) x mu) X)
          = map (\<lambda>x. map (projection_spec mu V x) [0..<min (nat d) n]) X"
    using each by (simp add: comp_def)
  with ok show ?thesis by (simp only: dot_mm_def if_True)
qed

lemma map2_upt_take:
  "map2 g (map f [0..<min n (length ev)]) (map h (take n ev))
     = map (\<lambda>j. g (f j) (h (ev ! j))) [0..<min n (length ev)]"
  by (rule nth_equalityI) auto

lemma imul_cols_columns:
  assumes d: "0 \<le> d"
  shows "imul_cols (map (\<lambda>x. map (F x) [0..<min (nat d) (length ev)]) X) (map h (py_take d ev))
           = Inr (map (\<lambda>x. map (\<lambda>j. np_mul (F x j) (h (ev ! j))) [0..<min (nat d) (length ev)]) X)"
proof -
  have ok: "list_all (\<lambda>r. length r = length (map h (py_take d ev)))
              (map (\<lambda>x. map (F x) [0..<min (nat d) (length ev)]) X)"
    using d by (auto simp: list_all_iff py_take_nonneg min.commute)
  have "map (\<lambda>r. map2 np_mul r (map h (py_take d ev)))
            (map (\<lambda>x. map (F x) [0..<min (nat d) (length ev)]) X)
          = map (\<lambda>x. map (\<lambda>j. np_mul (F x j) (h (ev ! j))) [0..<min (nat d) (length ev)]) X"
    using d by (simp add: comp_def py_take_nonneg map2_upt_take)
  with ok show ?thesis by (simp only: imul_cols_def if_True)
qed

lemma commute_factor_regular:
  assumes "l \<noteq> 0" and "\<bar>l\<bar> \<noteq> 1" and "lg \<noteq> 0" and "0 \<le> commute_rt_spec lg l"
  shows "commute_factor lg (timescale_of lg l) = Fin (sqrt (commute_rt_spec lg l / 2))"
  using assms
  by (simp add: commute_factor_def regularized_timescale_def timescale_of_def np_sub_def
      commute_rt_spec_def Let_def)

text \<open>
  The transform of a diagonalized estimator on an input whose rows have the input
  dimension, in the model's arithmetic. For each row \<open>x\<close> and each of the first
  \<open>dimension()\<close> eigenvector columns \<open>j\<close> the result is the projection
  \<open>((x - mean) V)[j]\<close> when no scaling is set; the projection times
  \<open>eigenvalues[j]\<close> under \<open>kinetic_map\<close>; the projection times numpy's
  \<open>sqrt(regularized_timescale / 2)\<close> under \<open>commute_map\<close>. Where the eigenvalue is
  neither zero nor of magnitude one, the lag is not zero and the regularized timescale
  is not negative, that factor is the real number \<open>sqrt(rt / 2)\<close> of the
  specification. The state is unchanged.
\<close>

lemma transform_is_scaled_projection:
  assumes est: "estimated t"
    and mean: "m_mean (model t) = Some mu"
    and evec: "m_eigenvectors (model t) = Some V"
    and eval: "m_eigenvalues (model t) = Some ev"
    and dimn: "dimension s t = Inr (d, t)" and d0: "0 \<le> d"
    and shapeX: "list_all (\<lambda>x. length x = length mu) X"
    and shapeV: "length V = length mu" "V \<noteq> []" "list_all (\<lambda>r. length r = length ev) V"
  shows "(\<not> kinetic_map (prm t) \<and> \<not> commute_map (prm t) \<longrightarrow>
            transform_array s t X =
              Inr (map (\<lambda>x. map (\<lambda>j. Fin (projection_spec mu V x j))
                                 [0..<min (nat d) (length ev)]) X, t))
       \<and> (kinetic_map (prm t) \<and> \<not> commute_map (prm t) \<longrightarrow>
            transform_array s t X =
              Inr (map (\<lambda>x. map (\<lambda>j. Fin (projection_spec mu V x j * ev ! j))
                                 [0..<min (nat d) (length ev)]) X, t))
       \<and> (commute_map (prm t) \<and> \<not> kinetic_map (prm t) \<longrightarrow>
            transform_array s t X =
              Inr (map (\<lambda>x. map (\<lambda>j. np_mul (Fin (projection_spec mu V x j))
                                              (commute_factor (lag (prm t))
                                                 (timescale_of (lag (prm t)) (ev ! j))))
                                 [0..<min (nat d) (length ev)]) X, t))
       \<and> (\<forall>l. l \<noteq> 0 \<and> \<bar>l\<bar> \<noteq> 1 \<and> lag (prm t) \<noteq> 0
                \<and> 0 \<le> commute_rt_spec (lag (prm t)) l \<longrightarrow>
              commute_factor (lag (prm t)) (timescale_of (lag (prm t)) l)
                = Fin (sqrt (commute_rt_spec (lag (prm t)) l / 2)))"
proof -
  let ?k = "min (nat d) (length ev)"
  let ?P = "map (\<lambda>x. map (projection_spec mu V x) [0..<?k]) X"
  have dot: "dot_mm (map (\<lambda>x. map2 (-) x mu) X) (map (py_take d) V) = Inr ?P"
    using shapeX shapeV(2) shapeV(3) d0 shapeV(1) by (rule dot_projection)
  have lift: "map (map Fin \<circ> (\<lambda>x. map (projection_spec mu V x) [0..<?k])) X
                = map (\<lambda>x. map (\<lambda>j. Fin (projection_spec mu V x j)) [0..<?k]) X"
    by (simp add: comp_def)
  have kin: "imul_cols (map (\<lambda>x. map (\<lambda>j. Fin (projection_spec mu V x j)) [0..<?k]) X)
                       (map Fin (py_take d ev))
               = Inr (map (\<lambda>x. map (\<lambda>j. Fin (projection_spec mu V x j * ev ! j)) [0..<?k]) X)"
    using imul_cols_columns[OF d0, of "\<lambda>x j. Fin (projection_spec mu V x j)" ev X Fin] by simp
  have ts: "timescales s t = Inr (map (timescale_of (lag (prm t))) ev, t)"
    using est eval by (rule timescales_estimated)
  have take_map: "py_take d (map (timescale_of (lag (prm t))) ev)
                    = map (timescale_of (lag (prm t))) (py_take d ev)"
    using d0 by (simp add: py_take_nonneg take_map)
  have com: "imul_cols (map (\<lambda>x. map (\<lambda>j. Fin (projection_spec mu V x j)) [0..<?k]) X)
                       (map (commute_factor (lag (prm t)))
                            (py_take d (map (timescale_of (lag (prm t))) ev)))
               = Inr (map (\<lambda>x. map (\<lambda>j. np_mul (Fin (projection_spec mu V x j))
                                              (commute_factor (lag (prm t))
                                                 (timescale_of (lag (prm t)) (ev ! j))))
                                 [0..<?k]) X)"
    using imul_cols_columns[OF d0, of "\<lambda>x j. Fin (projection_spec mu V x j)" ev X
            "\<lambda>l. commute_factor (lag (prm t)) (timescale_of (lag (prm t)) l)"]
    by (simp add: take_map comp_def)
  have pre: "sub_rows X mu = Inr (map (\<lambda>x. map2 (-) x mu) X)"
    using shapeX by (rule sub_rows_aligned)
  have ev1: "eigenvectors s t = Inr (V, t)" using est evec by (rule eigenvectors_estimated)
  have ev2: "eigenvalues s t = Inr (ev, t)" using est eval by (rule eigenvalues_estimated)
  have modes: "(\<not> kinetic_map (prm t) \<and> \<not> commute_map (prm t) \<longrightarrow>
            transform_array s t X =
              Inr (map (\<lambda>x. map (\<lambda>j. Fin (projection_spec mu V x j)) [0..<?k]) X, t))
       \<and> (kinetic_map (prm t) \<and> \<not> commute_map (prm t) \<longrightarrow>
            transform_array s t X =
              Inr (map (\<lambda>x. map (\<lambda>j. Fin (projection_spec mu V x j * ev ! j)) [0..<?k]) X, t))
       \<and> (commute_map (prm t) \<and> \<not> kinetic_map (prm t) \<longrightarrow>
            transform_array s t X =
              Inr (map (\<lambda>x. map (\<lambda>j. np_mul (Fin (projection_spec mu V x j))
                                              (commute_factor (lag (prm t))
                                                 (timescale_of (lag (prm t)) (ev ! j))))
                                 [0..<?k]) X, t))"
    by (simp add: transform_array_def mean pre ev1 ev2 dimn dot lift kin ts com Let_def)
  have reg: "\<forall>l. l \<noteq> 0 \<and> \<bar>l\<bar> \<noteq> 1 \<and> lag (prm t) \<noteq> 0
                \<and> 0 \<le> commute_rt_spec (lag (prm t)) l \<longrightarrow>
              commute_factor (lag (prm t)) (timescale_of (lag (prm t)) l)
                = Fin (sqrt (commute_rt_spec (lag (prm t)) l / 2))"
    by (simp add: commute_factor_regular)
  from modes reg show ?thesis by blast
qed

lemma transform_is_scaled_projection_example:
  "transform_array failing_solver (example_estimated (example_params (- 1) 1 False False)) [[3, 5]]
     = Inr ([[Fin 2, Fin 3]], example_estimated (example_params (- 1) 1 False False))
   \<and> transform_array failing_solver (example_estimated (example_params (- 1) 1 True False)) [[3, 5]]
     = Inr ([[Fin 1, Fin (3 / 4)]], example_estimated (example_params (- 1) 1 True False))
   \<and> transform_array failing_solver (example_estimated (example_params (- 1) 1 False True)) [[3, 5]]
     = Inr ([[np_mul (Fin 2) (commute_factor 2 (timescale_of 2 (1 / 2))),
              np_mul (Fin 3) (commute_factor 2 (timescale_of 2 (1 / 4)))]],
            example_estimated (example_params (- 1) 1 False True))
   \<and> commute_rt_spec 2 (exp (- 1)) = tanh 1
   \<and> commute_factor 2 (timescale_of 2 (exp (- 1))) = Fin (sqrt (tanh 1 / 2))"
proof -
  have d: "dimension failing_solver (example_estimated (example_params (- 1) 1 km cm))
             = Inr (2, example_estimated (example_params (- 1) 1 km cm))" for km cm
    by (simp add: dimension_def eigenvalues_def lazy_estimation_def get_attr_def
        example_estimated_def example_params_def)
  have rt: "commute_rt_spec 2 (exp (- 1)) = tanh 1"
    by (simp add: commute_rt_spec_def)
  have p0: "projection_spec [1, 2] [[1, 0], [0, 1]] [3, 5] 0 = 2"
    and p1: "projection_spec [1, 2] [[1, 0], [0, 1]] [3, 5] (Suc 0) = 3"
    by (simp_all add: projection_spec_def upt_2)
  note T = transform_is_scaled_projection[where s = failing_solver and mu = "[1, 2]"
      and V = "[[1, 0], [0, 1]]" and ev = "[1 / 2, 1 / 4]" and d = 2 and X = "[[3, 5]]",
      OF _ _ _ _ d]
  have a: "transform_array failing_solver (example_estimated (example_params (- 1) 1 False False)) [[3, 5]]
     = Inr ([[Fin 2, Fin 3]], example_estimated (example_params (- 1) 1 False False))"
    using T[of False False]
    by (simp add: example_estimated_def example_params_def upt_2 p0 p1)
  have b: "transform_array failing_solver (example_estimated (example_params (- 1) 1 True False)) [[3, 5]]
     = Inr ([[Fin 1, Fin (3 / 4)]], example_estimated (example_params (- 1) 1 True False))"
    using T[of True False]
    by (simp add: example_estimated_def example_params_def upt_2 p0 p1)
  have c: "transform_array failing_solver (example_estimated (example_params (- 1) 1 False True)) [[3, 5]]
     = Inr ([[np_mul (Fin 2) (commute_factor 2 (timescale_of 2 (1 / 2))),
              np_mul (Fin 3) (commute_factor 2 (timescale_of 2 (1 / 4)))]],
            example_estimated (example_params (- 1) 1 False True))"
    using T[of False True]
    by (simp add: example_estimated_def example_params_def upt_2 p0 p1)
  have e: "commute_factor 2 (timescale_of 2 (exp (- 1))) = Fin (sqrt (tanh 1 / 2))"
    using T[of False True, THEN conjunct2, THEN conjunct2, THEN conjunct2, rule_format,
            of "exp (- 1)"] rt
    by (simp add: example_estimated_def example_params_def)
  from a b c rt e show ?thesis by simp
qed

section \<open>Regularization of the equilibrium covariance\<close>

lemma min_from_le: "min_from a xs \<le> a"
proof (induction xs arbitrary: a)
  case Nil
  then show ?case by simp
next
  case (Cons x xs)
  have "min_from (min a x) xs \<le> min a x" by (rule Cons.IH)
  then show ?case by simp
qed

lemma min_from_le_elem: "x \<in> set xs \<Longrightarrow> min_from a xs \<le> x"
proof (induction xs arbitrary: a)
  case Nil
  then show ?case by simp
next
  case (Cons y ys)
  show ?case
  proof (cases "x = y")
    case True
    have "min_from (min a y) ys \<le> min a y" by (rule min_from_le)
    with True show ?thesis by simp
  next
    case False
    with Cons show ?thesis by simp
  qed
qed

lemma np_min_le:
  assumes "np_min s = Inr evmin" and "x \<in> set s"
  shows "evmin \<le> x"
proof (cases s)
  case Nil
  with assms show ?thesis by simp
next
  case (Cons y ys)
  with assms have ev: "evmin = min_from y ys" by (simp add: np_min_def)
  show ?thesis
  proof (cases "x = y")
    case True
    then show ?thesis using ev min_from_le[of y ys] by simp
  next
    case False
    with assms(2) Cons have "x \<in> set ys" by simp
    then show ?thesis using ev min_from_le_elem by simp
  qed
qed

lemma take_columns_Inr: "take_columns ind Q = Inr Q' \<Longrightarrow> Q' = map (\<lambda>r. map (\<lambda>i. r ! i) ind) Q"
  by (auto simp: take_columns_def split: if_splits)

lemma sort_by_norm_values:
  assumes "sort_by_norm s Q = Inr (s1, Q1)"
  shows "set s1 = set s" and "length s1 = length s"
proof -
  let ?I = "sort_key (\<lambda>i. - \<bar>s ! i\<bar>) [0..<length s]"
  from assms have s1: "s1 = map (\<lambda>i. s ! i) ?I"
    by (auto simp: sort_by_norm_def Let_def bind_err_eq_Inr)
  have "set ?I = {0..<length s}" by simp
  then have "set s1 = (\<lambda>i. s ! i) ` {0..<length s}" using s1 by simp
  also have "\<dots> = set s" by (auto simp: set_conv_nth)
  finally show "set s1 = set s" .
  show "length s1 = length s" using s1 by simp
qed

lemma adjusted_epsilon_bounds:
  "eps \<le> adjusted_epsilon eps evmin \<and> (evmin < 0 \<longrightarrow> - evmin \<le> adjusted_epsilon eps evmin)"
  by (simp add: adjusted_epsilon_def)

lemma regularize_Inr:
  assumes "regularize eps s Q = Inr (s', Q')"
  shows "\<exists>evmin s1 Q1. np_min s = Inr evmin \<and> sort_by_norm s Q = Inr (s1, Q1)
           \<and> s' = map (\<lambda>i. s1 ! i) (filter (\<lambda>i. \<bar>s1 ! i\<bar> > adjusted_epsilon eps evmin) [0..<length s1])
           \<and> take_columns (filter (\<lambda>i. \<bar>s1 ! i\<bar> > adjusted_epsilon eps evmin) [0..<length s1]) Q1 = Inr Q'"
  using assms
  by (auto simp: regularize_def Let_def bind_err_eq_Inr)

lemma set_filtered_values:
  "set (map (\<lambda>i. s1 ! i) (filter (\<lambda>i. P (s1 ! i)) [0..<length s1])) = {x \<in> set s1. P x}"
proof -
  have "set (map (\<lambda>i. s1 ! i) (filter (\<lambda>i. P (s1 ! i)) [0..<length s1]))
          = (\<lambda>i. s1 ! i) ` {i. i < length s1 \<and> P (s1 ! i)}"
    by auto
  also have "\<dots> = {x \<in> set s1. P x}"
    by (auto simp: in_set_conv_nth)
  finally show ?thesis .
qed

text \<open>
  Claim C6. The eigenpairs of \<open>C_0_eq\<close> that are kept are those whose eigenvalue has
  a norm above the adjusted cutoff. The adjusted cutoff is never below the configured
  epsilon, and it is the larger of epsilon and \<open>-evmin\<close> when the least eigenvalue
  \<open>evmin\<close> is negative. For a configured epsilon that is not negative, every kept
  eigenvalue is strictly positive, so \<open>s ** -0.5\<close> is the finite \<open>1 / sqrt s\<close> on
  each of them and the whitening transform is built from finite factors.
\<close>

theorem retained_eigenvalues_positive:
  assumes eps: "0 \<le> eps" and reg: "regularize eps s Q = Inr (s', Q')"
  shows "\<exists>evmin. np_min s = Inr evmin
           \<and> eps \<le> adjusted_epsilon eps evmin
           \<and> (evmin < 0 \<longrightarrow> adjusted_epsilon eps evmin = max eps (- evmin))
           \<and> set s' = {x \<in> set s. \<bar>x\<bar> > adjusted_epsilon eps evmin}
           \<and> (\<forall>x\<in>set s'. 0 < x \<and> pow_neg_half x = Fin (1 / sqrt x))
           \<and> whitening s' Q' = np_dot_mm (lift_m Q') (np_diag (map (\<lambda>x. Fin (1 / sqrt x)) s'))"
proof -
  from reg obtain evmin s1 Q1 where
    mn: "np_min s = Inr evmin" and srt: "sort_by_norm s Q = Inr (s1, Q1)"
    and s': "s' = map (\<lambda>i. s1 ! i) (filter (\<lambda>i. \<bar>s1 ! i\<bar> > adjusted_epsilon eps evmin) [0..<length s1])"
    by (blast dest: regularize_Inr)
  let ?ep0 = "adjusted_epsilon eps evmin"
  have set1: "set s1 = set s" using srt by (rule sort_by_norm_values)
  have sets: "set s' = {x \<in> set s. \<bar>x\<bar> > ?ep0}"
    unfolding s' using set_filtered_values[of s1 "\<lambda>x. \<bar>x\<bar> > ?ep0"] set1 by simp
  have pos: "0 < x" if "x \<in> set s'" for x
  proof (rule ccontr)
    assume "\<not> 0 < x"
    then have x0: "x \<le> 0" by simp
    from that sets have xs: "x \<in> set s" and big: "\<bar>x\<bar> > ?ep0" by auto
    from mn xs have le: "evmin \<le> x" by (rule np_min_le)
    show False
    proof (cases "evmin < 0")
      case True
      then have "- evmin \<le> ?ep0" by (simp add: adjusted_epsilon_def)
      with le x0 big show False by simp
    next
      case False
      with le x0 have "x = 0" by simp
      with big eps False show False by (simp add: adjusted_epsilon_def)
    qed
  qed
  have pw: "map pow_neg_half s' = map (\<lambda>x. Fin (1 / sqrt x)) s'"
    using pos by (simp add: pow_neg_half_def)
  have wh: "whitening s' Q' = np_dot_mm (lift_m Q') (np_diag (map (\<lambda>x. Fin (1 / sqrt x)) s'))"
    by (simp only: whitening_def pw)
  have b1: "eps \<le> ?ep0" by (simp add: adjusted_epsilon_def)
  have b2: "evmin < 0 \<longrightarrow> ?ep0 = max eps (- evmin)" by (simp add: adjusted_epsilon_def)
  from mn b1 b2 sets pos pw wh show ?thesis
    by (intro exI[of _ evmin]) (simp add: pow_neg_half_def)
qed

lemma upt_3: "[0..<3] = [0, 1, 2]"
  by (simp add: numeral_3_eq_3)

lemma example_regularize:
  "regularize (1 / 1000000) [- 1 / 2, 2, 1 / 4] [[1, 0, 0], [0, 1, 0], [0, 0, 1]]
     = Inr ([2], [[0], [1], [0]])"
  by (simp add: regularize_def np_min_def adjusted_epsilon_def sort_by_norm_def take_columns_def
      upt_3 Let_def)

theorem retained_eigenvalues_positive_witness:
  "(0::real) \<le> 1 / 1000000
   \<and> regularize (1 / 1000000) [- 1 / 2, 2, 1 / 4] [[1, 0, 0], [0, 1, 0], [0, 0, 1]]
       = Inr ([2], [[0], [1], [0]])
   \<and> np_min [- 1 / 2, 2, 1 / 4] = Inr (- 1 / 2)
   \<and> adjusted_epsilon (1 / 1000000) (- 1 / 2) = 1 / 2
   \<and> pow_neg_half 2 = Fin (1 / sqrt 2)
   \<and> whitening [2] [[0], [1], [0]]
       = np_dot_mm (lift_m [[0], [1], [0]]) (np_diag [Fin (1 / sqrt 2)])"
proof -
  have h0: "(0::real) \<le> 1 / 1000000" by simp
  have mn: "np_min [- 1 / 2, 2, 1 / 4] = Inr (- 1 / 2)" by (simp add: np_min_def)
  from retained_eigenvalues_positive[OF h0 example_regularize] obtain evmin where
    a: "np_min [- 1 / 2, 2, 1 / 4] = Inr evmin"
    and b: "evmin < 0 \<longrightarrow> adjusted_epsilon (1 / 1000000) evmin = max (1 / 1000000) (- evmin)"
    and c: "\<forall>x\<in>set [2]. 0 < x \<and> pow_neg_half x = Fin (1 / sqrt x)"
    and d: "whitening [2] [[0], [1], [0]]
              = np_dot_mm (lift_m [[0], [1], [0]]) (np_diag (map (\<lambda>x. Fin (1 / sqrt x)) [2]))"
    by blast
  from a mn have ev: "evmin = - 1 / 2" by simp
  from b ev have ae: "adjusted_epsilon (1 / 1000000) (- 1 / 2) = 1 / 2" by simp
  from c have pw: "pow_neg_half 2 = Fin (1 / sqrt 2)" by simp
  from d have wh: "whitening [2] [[0], [1], [0]]
       = np_dot_mm (lift_m [[0], [1], [0]]) (np_diag [Fin (1 / sqrt 2)])" by simp
  from h0 example_regularize mn ae pw wh show ?thesis by blast
qed

section \<open>The commute map on short timescales\<close>

lemma ln_16_gt_2: "2 < ln (16::real)"
proof -
  have "exp (2::real) = exp 1 * exp 1" by (simp add: exp_add [symmetric])
  also have "\<dots> \<le> 3 * 3" by (intro mult_mono exp_le) simp_all
  also have "\<dots> < (16::real)" by simp
  finally have "exp (2::real) < exp (ln 16)" by simp
  then show ?thesis by (rule exp_less_cancel)
qed

lemma commute_rt_negative: "commute_rt_spec 2 (1 / 16) < 0"
proof -
  let ?L = "ln (16::real)"
  have L: "2 < ?L" by (rule ln_16_gt_2)
  have ln: "ln \<bar>1 / 16 :: real\<bar> = - ?L" by (simp add: ln_div)
  have ti: "- real_of_int 2 / ln \<bar>1 / 16 :: real\<bar> = 2 / ?L" using ln by simp
  have pos: "0 < 2 / ?L" using L by simp
  have small: "2 / ?L < 1" using L by simp
  have "(2 / ?L - 2) / 2 < - 1 / 2" using small by simp
  then have "pi * ((2 / ?L - 2) / 2) < pi * (- 1 / 2)"
    by (rule mult_strict_left_mono) simp
  then have "pi * ((2 / ?L - 2) / 2) + 1 < pi * (- 1 / 2) + 1" by simp
  also have "\<dots> \<le> 0" using pi_ge_two by simp
  finally have arg: "pi * ((2 / ?L - 2) / 2) + 1 < 0" .
  then have th: "tanh (pi * ((2 / ?L - 2) / 2) + 1) < 0"
    by (simp only: tanh_real_neg_iff)
  have half: "0 < (1 / 2) * (2 / ?L)" using pos by simp
  from half th have "(1 / 2) * (2 / ?L) * tanh (pi * ((2 / ?L - 2) / 2) + 1) < 0"
    by (rule mult_pos_neg)
  then show ?thesis
    unfolding commute_rt_spec_def Let_def ti by simp
qed

lemma commute_factor_negative:
  assumes "l \<noteq> 0" and "\<bar>l\<bar> \<noteq> 1" and "lg \<noteq> 0" and "commute_rt_spec lg l < 0"
  shows "commute_factor lg (timescale_of lg l) = NaN"
  using assms
  by (simp add: commute_factor_def regularized_timescale_def timescale_of_def np_sub_def
      commute_rt_spec_def Let_def)


section \<open>The equilibrium-corrected estimation\<close>

subsection \<open>The example run\<close>

lemma upt_1: "[0..<1] = [0]"
  by simp

lemma ex_C: "build_C_0_eq [[1]] [[1]] [0] = Inr [[1, 0], [0, 1]]"
  by (simp add: build_C_0_eq_def ncols_def mat_transpose_def dot_mm_def dot_vm_def row_times_def)

lemma ex_eigh1: "diagonal_eigh (lift_m [[1, 0], [0, 1]]) = Inr ([1, 1], [[1, 0], [0, 1]])"
  by (simp add: diagonal_eigh_def lift_m_def identity_matrix_def upt_2)

lemma ex_sort1: "sort_by_norm [1, 1] [[1, 0], [0, 1]] = Inr ([1, 1], [[1, 0], [0, 1]])"
  by (simp add: sort_by_norm_def take_columns_def upt_2)

lemma ex_reg:
  "0 \<le> eps \<Longrightarrow> eps < 1 \<Longrightarrow> regularize eps [1, 1] [[1, 0], [0, 1]] = Inr ([1, 1], [[1, 0], [0, 1]])"
  by (simp add: regularize_def np_min_def adjusted_epsilon_def ex_sort1 take_columns_def upt_2)

lemma ex_white: "whitening [1, 1] [[1, 0], [0, 1]] = Inr [[Fin 1, Fin 0], [Fin 0, Fin 1]]"
  by (simp add: whitening_def np_dot_mm_def np_row_times_def np_diag_def lift_m_def
      pow_neg_half_def ncols_def upt_2)

lemma ex_K: "symmetrized_K [[Fin 1, Fin 0], [Fin 0, Fin 1]] [[1, 0], [0, 1]] [[1 / 2, 0], [0, 1]]
               = Inr [[Fin (1 / 2), Fin 0], [Fin 0, Fin 1]]"
  by (simp add: symmetrized_K_def dot_mm_def row_times_def mat_transpose_def ncols_def add_mm_def
      stretch_def np_dot_mm_def np_row_times_def lift_m_def upt_2 Let_def)

lemma ex_eigh2: "diagonal_eigh [[Fin (1 / 2), Fin 0], [Fin 0, Fin 1]] = Inr ([1 / 2, 1], [[1, 0], [0, 1]])"
  by (simp add: diagonal_eigh_def identity_matrix_def upt_2)

lemma ex_sort2: "sort_by_norm [1 / 2, 1] [[1, 0], [0, 1]] = Inr ([1, 1 / 2], [[0, 1], [1, 0]])"
  by (simp add: sort_by_norm_def take_columns_def upt_2)

lemma ex_compose:
  "compose_transform [[1]] [3] [[Fin 1, Fin 0], [Fin 0, Fin 1]] [[0, 1], [1, 0]]
     = Inr ([[Fin 0, Fin 1]], [Fin 1, Fin (- 3)])"
  by (simp add: compose_transform_def ncols_def np_dot_mm_def np_dot_mm_n_def np_dot_vm_n_def
      np_row_times_def np_row_times_n_def lift_m_def lift_v_def dot_vm_def row_times_def
      np_sub_v_def np_sub_def upt_2)

lemma ex_cumvar: "compute_cumvar [1, 1 / 2] = Inr [Fin (4 / 5), Fin 1]"
  by (simp add: compute_cumvar_def cumsum_def power2_eq_square)

lemma example_estimate_eq:
  "0 \<le> epsilon p \<Longrightarrow> epsilon p < 1 \<Longrightarrow>
   estimate_eq example_koopman_estimator example_weighted_accumulator diagonal_eigh
     (new_eq_tica p) example_source_1d = Inr (example_eq_estimated p)"
  by (simp add: estimate_eq_def example_koopman_estimator_def example_koopman_def
      example_weighted_accumulator_def example_weighted_statistics_def
      ex_C ex_eigh1 ex_reg ex_white ex_K ex_eigh2 ex_sort2 ex_compose ex_cumvar
      new_eq_tica_def example_eq_estimated_def Let_def)

subsection \<open>The stages of the estimation\<close>

lemma estimate_eq_Inr:
  assumes "estimate_eq ke ce eigh t src = Inr t1"
  shows "\<exists>koop c C_0_eq s Q s' Q' R_eq K_eq d0 V0 d V tr' tr_c' cv.
           ke (prm t) src = Inr koop
         \<and> ce (prm t) koop src = Inr c
         \<and> build_C_0_eq (k_R koop) (c_cov c) (c_mean c) = Inr C_0_eq
         \<and> eigh (lift_m C_0_eq) = Inr (s, Q)
         \<and> regularize (epsilon (prm t)) s Q = Inr (s', Q')
         \<and> whitening s' Q' = Inr R_eq
         \<and> symmetrized_K R_eq C_0_eq (k_K koop) = Inr K_eq
         \<and> eigh K_eq = Inr (d0, V0)
         \<and> sort_by_norm d0 V0 = Inr (d, V)
         \<and> compose_transform (k_R koop) (k_mean koop) R_eq V = Inr (tr', tr_c')
         \<and> compute_cumvar d = Inr cv
         \<and> t1 = t\<lparr> covar := c,
                     model := (model t)\<lparr> m_mean := Some (c_mean c), m_cumvar := Some cv,
                                         m_eigenvalues := Some d \<rparr>,
                     estimated := True, tr := Some tr', tr_c := Some tr_c' \<rparr>"
  using assms
  by (auto simp: estimate_eq_def Let_def bind_err_eq_Inr split: prod.splits)

lemma compose_transform_Inr:
  assumes "compose_transform R x_mean_0 R_eq V = Inr (P, c)"
  shows "\<exists>W mR off. np_dot_mm R_eq (lift_m V) = Inr W
           \<and> np_dot_mm_n (ncols W) (lift_m R) (take (ncols R) W) = Inr P
           \<and> ncols R < length W
           \<and> dot_vm x_mean_0 R = Inr mR
           \<and> np_dot_vm_n (ncols W) (lift_v mR) (take (ncols R) W) = Inr off
           \<and> np_sub_v (W ! ncols R) off = Inr c"
  using assms
  by (auto simp: compose_transform_def Let_def bind_err_eq_Inr split: if_splits)

lemma np_row_times_lift:
  assumes "length x = length P"
  shows "np_row_times (map Fin x) P
           = map (\<lambda>j. foldl np_add (Fin 0) (map (\<lambda>k. np_mul (Fin (x ! k)) (P ! k ! j)) [0..<length P]))
                 [0..<ncols P]"
proof -
  have inner: "map (\<lambda>k. np_mul (map Fin x ! k) (P ! k ! j)) [0..<length P]
          = map (\<lambda>k. np_mul (Fin (x ! k)) (P ! k ! j)) [0..<length P]" for j
    by (rule map_cong) (simp_all add: assms)
  show ?thesis by (simp only: np_row_times_def inner)
qed

lemma map2_upt_nth: "map2 g (map f [0..<length c]) c = map (\<lambda>j. g (f j) (c ! j)) [0..<length c]"
  by (rule nth_equalityI) auto

lemma transform_array_eq_entries:
  assumes P: "tr t = Some P" and c: "tr_c t = Some c"
    and X: "list_all (\<lambda>x. length x = length P) X"
    and ne: "P \<noteq> []" and rows: "list_all (\<lambda>r. length r = length c) P"
  shows "transform_array_eq t X = Inr (map (\<lambda>x. map (affine_spec P c x) [0..<length c]) X)"
proof -
  have nc: "ncols P = length c" using ne rows by (cases P) (auto simp: ncols_def)
  have ok: "list_all (\<lambda>r. length r = length P) (lift_m X)"
    using X by (auto simp: list_all_iff lift_m_def)
  have each: "np_row_times (map Fin x) P
                = map (\<lambda>j. foldl np_add (Fin 0) (map (\<lambda>k. np_mul (Fin (x ! k)) (P ! k ! j)) [0..<length P]))
                      [0..<length c]" if "x \<in> set X" for x
  proof -
    from that X have "length x = length P" by (auto simp: list_all_iff)
    then show ?thesis using nc by (simp add: np_row_times_lift)
  qed
  let ?Y = "map (\<lambda>x. map (\<lambda>j. foldl np_add (Fin 0)
                         (map (\<lambda>k. np_mul (Fin (x ! k)) (P ! k ! j)) [0..<length P])) [0..<length c]) X"
  have "map (\<lambda>r. np_row_times r P) (lift_m X) = ?Y"
    using each by (simp add: lift_m_def comp_def)
  with ok have dot: "np_dot_mm (lift_m X) P = Inr ?Y"
    by (simp only: np_dot_mm_def if_True)
  have okY: "list_all (\<lambda>r. length r = length c) ?Y" by (simp add: list_all_iff)
  have "map (\<lambda>r. map2 np_add r c) ?Y = map (\<lambda>x. map (affine_spec P c x) [0..<length c]) X"
    by (simp add: comp_def map2_upt_nth affine_spec_def)
  with okY have add: "np_add_rows ?Y c = Inr (map (\<lambda>x. map (affine_spec P c x) [0..<length c]) X)"
    by (simp only: np_add_rows_def if_True)
  show ?thesis by (simp add: transform_array_eq_def P c dot add)
qed



section \<open>The cumulative variance\<close>

lemma take_as_map_nth: "n \<le> length xs \<Longrightarrow> take n xs = map (\<lambda>i. xs ! i) [0..<n]"
  by (rule nth_equalityI) auto

lemma cumvar_spec_nth:
  assumes "k < length ev"
  shows "cumvar_spec ev ! k = sum_list (take (Suc k) (map (\<lambda>l. \<bar>l\<bar> ^ 2) ev))
                               / sum_list (map (\<lambda>l. \<bar>l\<bar> ^ 2) ev)"
proof -
  have a: "take (Suc k) (map (\<lambda>l. \<bar>l\<bar> ^ 2) ev) = map (\<lambda>i. \<bar>ev ! i\<bar> ^ 2) [0..<Suc k]"
    using assms by (subst take_as_map_nth) (auto simp del: upt_Suc)
  have b: "map (\<lambda>l. \<bar>l\<bar> ^ 2) ev = map (\<lambda>i. \<bar>ev ! i\<bar> ^ 2) [0..<length ev]"
    by (rule nth_equalityI) auto
  show ?thesis
    using assms unfolding a by (subst b) (simp add: cumvar_spec_def del: upt_Suc)
qed

lemma compute_cumvar_spec:
  assumes nz: "\<exists>l\<in>set ev. l \<noteq> 0"
  shows "compute_cumvar ev = Inr (map Fin (cumvar_spec ev))
         \<and> sorted (cumvar_spec ev) \<and> last (cumvar_spec ev) = 1"
proof -
  from compute_cumvar_regular[OF nz] obtain rs where
    cc: "compute_cumvar ev = Inr (map Fin rs)" and len: "length rs = length ev"
    and nth: "\<forall>k<length ev. rs ! k = sum_list (take (Suc k) (map (\<lambda>l. \<bar>l\<bar> ^ 2) ev))
                                     / sum_list (map (\<lambda>l. \<bar>l\<bar> ^ 2) ev)"
    and srt: "sorted rs" and lst: "last rs = 1"
    by blast
  have "rs = cumvar_spec ev"
  proof (rule nth_equalityI)
    show "length rs = length (cumvar_spec ev)" using len by (simp add: cumvar_spec_def)
  next
    fix i assume "i < length rs"
    then have "i < length ev" using len by simp
    then show "rs ! i = cumvar_spec ev ! i" using nth by (simp add: cumvar_spec_nth)
  qed
  with cc srt lst show ?thesis by simp
qed

lemma compute_cumvar_length: "compute_cumvar ev = Inr cv \<Longrightarrow> length cv = length ev"
  by (auto simp: compute_cumvar_def Let_def cumsum_def length_cumsum_from split: if_splits)

lemma example_cumvar_spec: "cumvar_spec [1 / 2, 1 / 4] = [4 / 5, 1]"
  by (simp add: cumvar_spec_def upt_2 power2_eq_square)

lemma example_cumvar_spec_eq: "cumvar_spec [1, 1 / 2] = [4 / 5, 1]"
  by (simp add: cumvar_spec_def upt_2 power2_eq_square)




section \<open>The dimension check and the equilibrium-corrected estimator\<close>

text \<open>
  Claim C9. The claim has every call of \<open>partial_fit\<close> or \<open>estimate\<close> fail at once
  when \<open>dim\<close> exceeds the dimension of the input. \<open>TICA._estimate\<close> does so (see
  \<open>dimension_check_eager\<close>); \<open>EquilibriumCorrectedTICA._estimate\<close>, reached through
  the same \<open>estimate\<close>, has no such test: constructed with \<open>dim = 5\<close> and estimated on
  a one-dimensional source, the base estimator raises the dimension error and the
  equilibrium-corrected estimator returns an estimated object.
\<close>

theorem eq_estimate_skips_dimension_check:
  "init 2 5 (95 / 100) False False (1 / 1000000) 1 True 0 True = Inr (example_params 5 1 False False)
   \<and> src_dimension example_source_1d = 1
   \<and> estimate example_accumulator diagonal_solver (new_tica (example_params 5 1 False False))
        example_source_1d = Inl dim_error
   \<and> estimate_eq example_koopman_estimator example_weighted_accumulator diagonal_eigh
        (new_eq_tica (example_params 5 1 False False)) example_source_1d
       = Inr (example_eq_estimated (example_params 5 1 False False))"
proof -
  let ?p = "example_params 5 1 False False"
  have i: "init 2 5 (95 / 100) False False (1 / 1000000) 1 True 0 True = Inr ?p"
    by (simp add: init_def example_params_def default_var_cutoff_def)
  have s: "src_dimension example_source_1d = 1" by (simp add: example_source_1d_def)
  have a: "estimate example_accumulator diagonal_solver (new_tica ?p) example_source_1d = Inl dim_error"
    by (simp add: estimate_def new_tica_def example_params_def example_source_1d_def)
  have e: "estimate_eq example_koopman_estimator example_weighted_accumulator diagonal_eigh
             (new_eq_tica ?p) example_source_1d = Inr (example_eq_estimated ?p)"
    by (rule example_estimate_eq) (simp_all add: example_params_def)
  from i s a e show ?thesis by blast
qed

section \<open>The round trip of the NPZ handler\<close>

subsection \<open>Base64\<close>

lemma distinct_alphabet: "distinct b64_alphabet"
  by (simp add: b64_alphabet_def)

lemma length_alphabet: "length b64_alphabet = 64"
  by (simp add: b64_alphabet_def)

lemma pad_not_in_alphabet: "CHR ''='' \<notin> set b64_alphabet"
  by (simp add: b64_alphabet_def)

lemma index_of_nth: "distinct xs \<Longrightarrow> n < length xs \<Longrightarrow> index_of (xs ! n) xs = n"
proof (induction xs arbitrary: n)
  case Nil
  then show ?case by simp
next
  case (Cons y ys)
  then show ?case by (cases n) auto
qed

lemma b64_value_char: "n < 64 \<Longrightarrow> b64_value (b64_char n) = n"
  by (simp add: b64_value_def b64_char_def index_of_nth distinct_alphabet length_alphabet)

lemma b64_char_in: "n < 64 \<Longrightarrow> b64_char n \<in> set b64_alphabet"
  by (simp add: b64_char_def length_alphabet)

lemma b64_char_not_pad: "n < 64 \<Longrightarrow> b64_char n \<noteq> CHR ''=''"
  using b64_char_in pad_not_in_alphabet by metis

lemma of_char_less: "(of_char c :: nat) < 256"
proof -
  have "(of_char c :: nat) mod 256 = of_char c" by simp
  moreover have "(of_char c :: nat) mod 256 < 256" by simp
  ultimately show ?thesis by simp
qed


lemma sextet1: fixes x :: nat assumes "x < 256" shows "x div 4 < 64"
  using assms by simp

lemma sextet2: fixes x y :: nat assumes "y < 256" shows "(x mod 4) * 16 + y div 16 < 64"
proof -
  have "x mod 4 < 4" by simp
  then have "x mod 4 \<le> 3" by simp
  then have "(x mod 4) * 16 \<le> 48" by simp
  moreover have "y div 16 < 16" using assms by simp
  ultimately show ?thesis by simp
qed

lemma sextet3: fixes y z :: nat assumes "z < 256" shows "(y mod 16) * 4 + z div 64 < 64"
proof -
  have "y mod 16 < 16" by simp
  then have "y mod 16 \<le> 15" by simp
  then have "(y mod 16) * 4 \<le> 60" by simp
  moreover have "z div 64 < 4" using assms by simp
  ultimately show ?thesis by simp
qed

lemma sextet4: fixes z :: nat shows "z mod 64 < 64"
  by simp

lemma rebuild1: fixes x y :: nat assumes "y < 256"
  shows "x div 4 * 4 + ((x mod 4) * 16 + y div 16) div 16 = x"
proof -
  have "y div 16 < 16" using assms by simp
  then have "((x mod 4) * 16 + y div 16) div 16 = x mod 4" by simp
  then show ?thesis by simp
qed

lemma rebuild2: fixes x y z :: nat assumes "y < 256" "z < 256"
  shows "((x mod 4) * 16 + y div 16) mod 16 * 16 + ((y mod 16) * 4 + z div 64) div 4 = y"
proof -
  have a: "y div 16 < 16" using assms by simp
  then have m: "((x mod 4) * 16 + y div 16) mod 16 = y div 16" by simp
  have "z div 64 < 4" using assms by simp
  then have d: "((y mod 16) * 4 + z div 64) div 4 = y mod 16" by simp
  show ?thesis unfolding m d by simp
qed

lemma rebuild3: fixes y z :: nat assumes "z < 256"
  shows "((y mod 16) * 4 + z div 64) mod 4 * 64 + z mod 64 = z"
proof -
  have "z div 64 < 4" using assms by simp
  then have m: "((y mod 16) * 4 + z div 64) mod 4 = z div 64" by simp
  show ?thesis unfolding m by simp
qed

text \<open>The bytes that a group of four characters decodes to, given the four values.\<close>

lemma decode_quad:
  assumes "s1 < 64" "s2 < 64" "s3 < 64" "s4 < 64"
  shows "b64_decode_groups (b64_char s1 # b64_char s2 # b64_char s3 # b64_char s4 # cs)
           = bind_err (b64_decode_groups cs) (\<lambda>tl'.
               Inr (char_of (s1 * 4 + s2 div 16) # char_of ((s2 mod 16) * 16 + s3 div 4)
                    # char_of ((s3 mod 4) * 64 + s4) # tl'))"
  using assms by (simp add: Let_def b64_value_char b64_char_not_pad)

lemma decode_pad1:
  assumes "s1 < 64" "s2 < 64" "s3 < 64"
  shows "b64_decode_groups [b64_char s1, b64_char s2, b64_char s3, CHR ''='']
           = Inr [char_of (s1 * 4 + s2 div 16), char_of ((s2 mod 16) * 16 + s3 div 4)]"
  using assms by (simp add: Let_def b64_value_char b64_char_not_pad)

lemma decode_pad2:
  assumes "s1 < 64" "s2 < 64"
  shows "b64_decode_groups [b64_char s1, b64_char s2, CHR ''='', CHR ''='']
           = Inr [char_of (s1 * 4 + s2 div 16)]"
  using assms by (simp add: Let_def b64_value_char)

lemma decode_group3:
  "b64_decode_groups (b64_encode_bytes [a, b, c] @ cs)
     = bind_err (b64_decode_groups cs) (\<lambda>tl'. Inr (a # b # c # tl'))"
proof -
  define x y z where "x = (of_char a :: nat)" and "y = (of_char b :: nat)" and "z = (of_char c :: nat)"
  define s1 s2 s3 s4 where "s1 = x div 4" and "s2 = (x mod 4) * 16 + y div 16"
    and "s3 = (y mod 16) * 4 + z div 64" and "s4 = z mod 64"
  have lt: "x < 256" "y < 256" "z < 256" by (simp_all add: x_def y_def z_def)
  have sb: "s1 < 64" "s2 < 64" "s3 < 64" "s4 < 64"
    unfolding s1_def s2_def s3_def s4_def
    by (rule sextet1[OF lt(1)], rule sextet2[OF lt(2)], rule sextet3[OF lt(3)], rule sextet4)
  have rb: "s1 * 4 + s2 div 16 = x" "(s2 mod 16) * 16 + s3 div 4 = y" "(s3 mod 4) * 64 + s4 = z"
    unfolding s1_def s2_def s3_def s4_def
    by (rule rebuild1[OF lt(2)], rule rebuild2[OF lt(2) lt(3)], rule rebuild3[OF lt(3)])
  have enc: "b64_encode_bytes [a, b, c] @ cs
               = b64_char s1 # b64_char s2 # b64_char s3 # b64_char s4 # cs"
    by (simp add: Let_def s1_def s2_def s3_def s4_def x_def y_def z_def)
  have chars: "char_of x = a" "char_of y = b" "char_of z = c"
    by (simp_all add: x_def y_def z_def)
  show ?thesis
    by (simp only: enc decode_quad[OF sb] rb chars)
qed

lemma decode_group2: "b64_decode_groups (b64_encode_bytes [a, b]) = Inr [a, b]"
proof -
  define x y where "x = (of_char a :: nat)" and "y = (of_char b :: nat)"
  define s1 s2 s3 where "s1 = x div 4" and "s2 = (x mod 4) * 16 + y div 16"
    and "s3 = (y mod 16) * 4 + (0::nat) div 64"
  have lt: "x < 256" "y < 256" "(0::nat) < 256" by (simp_all add: x_def y_def)
  have sb: "s1 < 64" "s2 < 64" "s3 < 64"
    unfolding s1_def s2_def s3_def
    by (rule sextet1[OF lt(1)], rule sextet2[OF lt(2)], rule sextet3[OF lt(3)])
  have rb: "s1 * 4 + s2 div 16 = x" "(s2 mod 16) * 16 + s3 div 4 = y"
    unfolding s1_def s2_def s3_def
    by (rule rebuild1[OF lt(2)], rule rebuild2[OF lt(2) lt(3)])
  have enc: "b64_encode_bytes [a, b] = [b64_char s1, b64_char s2, b64_char s3, CHR ''='']"
    by (simp add: Let_def s1_def s2_def s3_def x_def y_def)
  have chars: "char_of x = a" "char_of y = b"
    by (simp_all add: x_def y_def)
  show ?thesis
    by (simp only: enc decode_pad1[OF sb] rb chars)
qed

lemma decode_group1: "b64_decode_groups (b64_encode_bytes [a]) = Inr [a]"
proof -
  define x where "x = (of_char a :: nat)"
  define s1 s2 where "s1 = x div 4" and "s2 = (x mod 4) * 16 + (0::nat) div 16"
  have lt: "x < 256" "(0::nat) < 256" by (simp_all add: x_def)
  have sb: "s1 < 64" "s2 < 64"
    unfolding s1_def s2_def
    by (rule sextet1[OF lt(1)], rule sextet2[OF lt(2)])
  have rb: "s1 * 4 + s2 div 16 = x"
    unfolding s1_def s2_def
    by (rule rebuild1[OF lt(2)])
  have enc: "b64_encode_bytes [a] = [b64_char s1, b64_char s2, CHR ''='', CHR ''='']"
    by (simp add: Let_def s1_def s2_def x_def)
  have chars: "char_of x = a" by (simp add: x_def)
  show ?thesis
    by (simp only: enc decode_pad2[OF sb] rb chars)
qed

lemma encode_Cons3: "b64_encode_bytes (a # b # c # rest) = b64_encode_bytes [a, b, c] @ b64_encode_bytes rest"
  by (simp add: Let_def)

lemma decode_encode: "b64_decode_groups (b64_encode_bytes bs) = Inr bs"
proof (induction bs rule: b64_encode_bytes.induct)
  case (1 a b c rest)
  have "b64_decode_groups (b64_encode_bytes (a # b # c # rest))
          = b64_decode_groups (b64_encode_bytes [a, b, c] @ b64_encode_bytes rest)"
    by (subst encode_Cons3) (rule refl)
  also have "\<dots> = Inr (a # b # c # rest)"
    by (simp only: decode_group3 "1.IH" bind_err_Inr)
  finally show ?case .
next
  case (2 a b)
  show ?case by (rule decode_group2)
next
  case (3 a)
  show ?case by (rule decode_group1)
next
  case 4
  show ?case by simp
qed

lemma encode_chars: "c \<in> set (b64_encode_bytes bs) \<Longrightarrow> c \<in> set b64_alphabet \<or> c = CHR ''=''"
proof (induction bs rule: b64_encode_bytes.induct)
  case (1 a b c' rest)
  have sb: "(of_char a :: nat) div 4 < 64"
    "((of_char a :: nat) mod 4) * 16 + (of_char b :: nat) div 16 < 64"
    "((of_char b :: nat) mod 16) * 4 + (of_char c' :: nat) div 64 < 64"
    "(of_char c' :: nat) mod 64 < 64"
    by (intro sextet1 sextet2 sextet3 sextet4; simp)+
  have "set (b64_encode_bytes (a # b # c' # rest))
          = {b64_char ((of_char a :: nat) div 4),
             b64_char (((of_char a :: nat) mod 4) * 16 + (of_char b :: nat) div 16),
             b64_char (((of_char b :: nat) mod 16) * 4 + (of_char c' :: nat) div 64),
             b64_char ((of_char c' :: nat) mod 64)} \<union> set (b64_encode_bytes rest)"
    by (simp add: Let_def)
  with 1 sb show ?case by (auto intro: b64_char_in)
next
  case (2 a b)
  have sb: "(of_char a :: nat) div 4 < 64"
    "((of_char a :: nat) mod 4) * 16 + (of_char b :: nat) div 16 < 64"
    "((of_char b :: nat) mod 16) * 4 + (0::nat) div 64 < 64"
    by (intro sextet1 sextet2 sextet3; simp)+
  have "set (b64_encode_bytes [a, b])
          = {b64_char ((of_char a :: nat) div 4),
             b64_char (((of_char a :: nat) mod 4) * 16 + (of_char b :: nat) div 16),
             b64_char (((of_char b :: nat) mod 16) * 4 + (0::nat) div 64), CHR ''=''}"
    by (simp add: Let_def)
  with 2 sb show ?case by (auto intro: b64_char_in)
next
  case (3 a)
  have sb: "(of_char a :: nat) div 4 < 64"
    "((of_char a :: nat) mod 4) * 16 + (0::nat) div 16 < 64"
    by (intro sextet1 sextet2; simp)+
  have "set (b64_encode_bytes [a])
          = {b64_char ((of_char a :: nat) div 4),
             b64_char (((of_char a :: nat) mod 4) * 16 + (0::nat) div 16), CHR ''=''}"
    by (simp add: Let_def)
  with 3 sb show ?case by (auto intro: b64_char_in)
next
  case 4
  then show ?case by simp
qed

lemma b64_roundtrip: "b64decode (b64encode payload) = Inr payload"
proof -
  have "filter (\<lambda>c. c \<in> set b64_alphabet \<or> c = CHR ''='') (b64_encode_bytes payload)
          = b64_encode_bytes payload"
    by (rule filter_True) (auto dest: encode_chars)
  then show ?thesis by (simp add: b64decode_def b64encode_def decode_encode)
qed

subsection \<open>The handler\<close>



end
